theory Spec2Isabelle
  imports Main
begin

section \<open>Qt value types used by the file sharing code\<close>

text \<open>
  \<open>QString\<close> and \<open>QByteArray\<close> are modelled as \<open>string\<close>, \<open>qint64\<close> as \<open>int\<close>
  with the two's complement wrap-around written out where the code does arithmetic.
  \<open>tr\<close> is the identity (no translation catalogue loaded).
\<close>

definition s64 :: "int \<Rightarrow> int" where
  "s64 x = (x + 2 ^ 63) mod 2 ^ 64 - 2 ^ 63"

definition u64 :: "int \<Rightarrow> int" where
  "u64 x = x mod 2 ^ 64"

definition startsWith :: "string \<Rightarrow> string \<Rightarrow> bool" where
  "startsWith s p = (take (length p) s = p)"

text \<open>\<open>QString::mid(n)\<close>: the string from position \<open>n\<close> on.\<close>

definition mid :: "string \<Rightarrow> nat \<Rightarrow> string" where
  "mid s n = drop n s"

definition digit_char :: "nat \<Rightarrow> char" where
  "digit_char n = char_of (48 + n)"

fun number_nat :: "nat \<Rightarrow> string" where
  "number_nat n = (if n < 10 then [digit_char n] else number_nat (n div 10) @ [digit_char (n mod 10)])"

declare number_nat.simps [simp del]

text \<open>\<open>QString::number(n)\<close> in base 10.\<close>

definition QString_number :: "int \<Rightarrow> string" where
  "QString_number n = (if n < 0 then CHR ''-'' # number_nat (nat (- n)) else number_nat (nat n))"

text \<open>\<open>QByteArray::split(sep)\<close>: the parts between the separators, empty parts kept.\<close>

fun split_acc :: "char \<Rightarrow> string \<Rightarrow> string \<Rightarrow> string list" where
  "split_acc sep cur [] = [rev cur]"
| "split_acc sep cur (c # cs) =
     (if c = sep then rev cur # split_acc sep [] cs else split_acc sep (c # cur) cs)"

definition split_ba :: "string \<Rightarrow> char \<Rightarrow> string list" where
  "split_ba ba sep = split_acc sep [] ba"

section \<open>Source descriptors (filesharingitem.cpp)\<close>

text \<open>
  \<open>FileSharingItem::SourceType\<close>; the enum is declared in the header, so the integer
  values of its members (the priorities) are a parameter \<open>prio\<close> below.
\<close>

datatype SourceType = ST_None | ST_BOB | ST_FTP | ST_Jingle | ST_HTTP

definition sourceType :: "string \<Rightarrow> SourceType" where
  "sourceType uri =
     (if startsWith uri ''http'' then ST_HTTP
      else if startsWith uri ''xmpp'' then ST_Jingle
      else if startsWith uri ''ftp'' then ST_FTP
      else if startsWith uri ''cid'' then ST_BOB
      else ST_None)"

text \<open>
  \<open>QMultiMap::insert\<close> (Qt 5): the new item goes before the items whose key is not less
  than its key; \<open>values()\<close> lists the values in ascending key order.
\<close>

fun multimap_insert :: "int \<Rightarrow> 'v \<Rightarrow> (int \<times> 'v) list \<Rightarrow> (int \<times> 'v) list" where
  "multimap_insert k v [] = [(k, v)]"
| "multimap_insert k v ((k', v') # m) =
     (if k' < k then (k', v') # multimap_insert k v m else (k, v) # (k', v') # m)"

definition sortSourcesByPriority :: "(SourceType \<Rightarrow> int) \<Rightarrow> string list \<Rightarrow> string list" where
  "sortSourcesByPriority prio uris =
     map snd (foldl (\<lambda>sorted u.
        let type = sourceType u in
        if type \<noteq> ST_None then multimap_insert (prio type) u sorted else sorted) [] uris)"

section \<open>Account, roster and peers\<close>

record Jid =
  node :: string
  domain :: string
  resource :: string
  isValid :: bool

definition Jid_null :: Jid where
  "Jid_null = \<lparr>node = [], domain = [], resource = [], isValid = False\<rparr>"

record UserListItem =
  userResourceList :: "string list"

text \<open>
  What the code asks of \<open>PsiAccount\<close>, the file system and the libraries it calls:
  the local identity, the roster lookup, URI and JID parsing, whether the Jingle
  file transfer application is available, the documents directory and its entries,
  the file name cleaner, the enum values of \<open>SourceType\<close>, what opening and writing
  the staging file report, and \<open>QByteArray::toLongLong\<close> (the \<open>ok\<close> flag and the value).
\<close>

record Env =
  client_jid :: Jid
  findRelevant :: "Jid \<Rightarrow> UserListItem list"
  url_path :: "string \<Rightarrow> string"
  url_queryType :: "string \<Rightarrow> string"
  jidFromString :: "string \<Rightarrow> Jid"
  jingleFtEnabled :: bool
  documentsDir :: string
  docDir_exists :: "string \<Rightarrow> bool"
  cleanFileName :: "string \<Rightarrow> string"
  prio :: "SourceType \<Rightarrow> int"
  tmpFile_open :: "string \<Rightarrow> string option"
  tmpFile_write :: "string \<Rightarrow> int"
  tmpFile_errorString :: string
  toLongLong :: "string \<Rightarrow> bool \<times> int"

section \<open>Transport adapters (filesharingdownloader.cpp)\<close>

datatype DownloaderClass = NAMFileShareDownloader | BOBFileShareDownloader | JingleFileShareDownloader

record QNetworkReply =
  r_bytes :: string
  r_running :: bool

datatype JingleState = Js_Pending | Js_Active | Js_Finished

record JingleApp =
  app_state :: JingleState

text \<open>
  One record holds the fields of \<open>AbstractFileShareDownloader\<close> and of its three
  subclasses; \<open>cls\<close> is the dynamic type, which selects the virtual functions.
\<close>

record Downloader =
  cls :: DownloaderClass
  lastError :: string
  rangeStart :: int
  rangeSize :: int
  sourceUri :: string
  jids :: "Jid list"
  reply :: "QNetworkReply option"
  receivedData :: string
  destroyed :: bool
  connected :: bool
  connection :: "string option"
  app :: "JingleApp option"
  fileRange :: "(int \<times> int) option"

text \<open>What a handler does to the world outside: signals of the orchestrator and requests.\<close>

datatype Effect =
    Emit_finished
  | Emit_metaDataChanged
  | Emit_readyRead
  | Emit_disconnected
  | SingleShot_failed
  | HttpGet string "string option"
  | LoadBob Jid string
  | JingleInitiate Jid "(int \<times> int) option"
  | JingleRemove bool
  | JingleTerminate
  | ReplyDelete

definition new_Downloader :: "DownloaderClass \<Rightarrow> string \<Rightarrow> Jid list \<Rightarrow> Downloader" where
  "new_Downloader c uri js =
     \<lparr>cls = c, lastError = [], rangeStart = 0, rangeSize = 0, sourceUri = uri, jids = js,
      reply = None, receivedData = [], destroyed = False, connected = False,
      connection = None, app = None, fileRange = None\<rparr>"

definition setRange :: "int \<Rightarrow> int \<Rightarrow> Downloader \<Rightarrow> Downloader" where
  "setRange offset len a = a\<lparr>rangeStart := offset, rangeSize := len\<rparr>"

definition isRanged :: "Downloader \<Rightarrow> bool" where
  "isRanged a = (rangeSize a \<noteq> 0 \<or> rangeStart a \<noteq> 0)"

definition range_of :: "Downloader \<Rightarrow> int \<times> int" where
  "range_of a = (rangeStart a, rangeSize a)"

text \<open>\<open>downloadError\<close>: keeps the text unless it is empty, and queues the \<open>failed\<close> signal.\<close>

definition downloadError :: "string \<Rightarrow> Downloader \<Rightarrow> Downloader \<times> Effect list" where
  "downloadError err a =
     ((if err \<noteq> [] then a\<lparr>lastError := err\<rparr> else a), [SingleShot_failed])"

fun relevantHasResource :: "UserListItem list \<Rightarrow> string \<Rightarrow> bool" where
  "relevantHasResource [] r = False"
| "relevantHasResource (u # us) r =
     (if r \<in> set (userResourceList u) then True else relevantHasResource us r)"

fun selectOnlineJid :: "Env \<Rightarrow> Jid list \<Rightarrow> Jid" where
  "selectOnlineJid env [] = Jid_null"
| "selectOnlineJid env (j # js) =
     (if j = client_jid env then selectOnlineJid env js
      else if relevantHasResource (findRelevant env j) (resource j) then j
      else selectOnlineJid env js)"


subsection \<open>The three \<open>start()\<close> implementations\<close>

definition NAM_start :: "Downloader \<Rightarrow> Downloader \<times> Effect list" where
  "NAM_start a =
     (let hdr = (if isRanged a
                 then Some (''bytes='' @ QString_number (rangeStart a) @ ''-'' @
                        (if rangeSize a \<noteq> 0
                         then QString_number (s64 (rangeStart a + rangeSize a - 1)) else []))
                 else None)
      in (a\<lparr>reply := Some \<lparr>r_bytes = [], r_running = True\<rparr>\<rparr>, [HttpGet (sourceUri a) hdr]))"

text \<open>
  The request goes to \<open>jids.first()\<close>; \<open>j\<close> is only tested for validity. The list is
  not empty there, since \<open>selectOnlineJid\<close> of an empty list is the null Jid.
\<close>

definition BOB_start :: "Env \<Rightarrow> Downloader \<Rightarrow> Downloader \<times> Effect list" where
  "BOB_start env a =
     (let j = selectOnlineJid env (jids a) in
      if \<not> isValid j
      then downloadError (CHR 0x22 # ''Bits Of Binary'' @ CHR 0x22 # '' data source is offline'') a
      else (a, [LoadBob (hd (jids a)) (mid (sourceUri a) 4)]))"

definition Jingle_start :: "Env \<Rightarrow> Downloader \<Rightarrow> Downloader \<times> Effect list" where
  "Jingle_start env a =
     (let path0 = url_path env (sourceUri a);
          path = (if startsWith path0 ''/'' then mid path0 1 else path0);
          entity = jidFromString env path;
          myJids = (if isValid entity \<and> node entity \<noteq> [] then entity # jids a else jids a);
          dataSource = selectOnlineJid env myJids
      in if \<not> isValid dataSource then downloadError ''Jingle data source is offline'' a
         else if url_queryType env (sourceUri a) \<noteq> ''jingle-ft''
           then downloadError ''Invalid Jingle-FT URI'' a
         else if \<not> jingleFtEnabled env
           then downloadError ''Jingle file transfer is disabled'' a
         else
           (let fr = (if isRanged a then Some (u64 (rangeStart a), u64 (rangeSize a))
                      else fileRange a)
            in (a\<lparr>app := Some \<lparr>app_state = Js_Pending\<rparr>, fileRange := fr\<rparr>,
                [JingleInitiate dataSource fr])))"

subsection \<open>Virtual functions, dispatched on the dynamic type\<close>

definition start :: "Env \<Rightarrow> Downloader \<Rightarrow> Downloader \<times> Effect list" where
  "start env a =
     (case cls a of
        NAMFileShareDownloader \<Rightarrow> NAM_start a
      | BOBFileShareDownloader \<Rightarrow> BOB_start env a
      | JingleFileShareDownloader \<Rightarrow> Jingle_start env a)"

definition bytesAvailable :: "Downloader \<Rightarrow> nat" where
  "bytesAvailable a =
     (case cls a of
        NAMFileShareDownloader \<Rightarrow> (case reply a of Some r \<Rightarrow> length (r_bytes r) | None \<Rightarrow> 0)
      | BOBFileShareDownloader \<Rightarrow> length (receivedData a)
      | JingleFileShareDownloader \<Rightarrow> (case connection a of Some c \<Rightarrow> length c | None \<Rightarrow> 0))"

text \<open>
  \<open>read(data, maxSize)\<close> returns the bytes copied into \<open>data\<close> and the adapter after
  the read; \<open>maxSize\<close> is never negative (\<open>QIODevice::read\<close> checks it). The reply
  and the Jingle connection are Qt devices: they hand out at most \<open>maxSize\<close> of the
  bytes they hold.
\<close>

definition read :: "Downloader \<Rightarrow> nat \<Rightarrow> string \<times> Downloader" where
  "read a maxSize =
     (case cls a of
        NAMFileShareDownloader \<Rightarrow>
          (case reply a of
             Some r \<Rightarrow> (take maxSize (r_bytes r),
                        a\<lparr>reply := Some (r\<lparr>r_bytes := drop maxSize (r_bytes r)\<rparr>)\<rparr>)
           | None \<Rightarrow> ([], a))
      | BOBFileShareDownloader \<Rightarrow>
          (if maxSize \<ge> length (receivedData a)
           then (receivedData a, a\<lparr>receivedData := []\<rparr>)
           else (take maxSize (receivedData a), a\<lparr>receivedData := mid (receivedData a) maxSize\<rparr>))
      | JingleFileShareDownloader \<Rightarrow>
          (case connection a of
             Some c \<Rightarrow> (take maxSize c, a\<lparr>connection := Some (drop maxSize c)\<rparr>)
           | None \<Rightarrow> ([], a)))"

definition abort :: "bool \<Rightarrow> string \<Rightarrow> Downloader \<Rightarrow> Downloader \<times> Effect list" where
  "abort isFailure reason a =
     (case cls a of
        NAMFileShareDownloader \<Rightarrow>
          (case reply a of Some r \<Rightarrow> (a\<lparr>reply := None\<rparr>, [ReplyDelete]) | None \<Rightarrow> (a, []))
      | BOBFileShareDownloader \<Rightarrow> (a\<lparr>destroyed := True\<rparr>, [])
      | JingleFileShareDownloader \<Rightarrow>
          (case app a of
             Some p \<Rightarrow> (a\<lparr>connection := None, app := None\<rparr>, [JingleRemove isFailure])
           | None \<Rightarrow> (a, [])))"

definition isConnected :: "Downloader \<Rightarrow> bool" where
  "isConnected a =
     (case cls a of
        NAMFileShareDownloader \<Rightarrow> (case reply a of Some r \<Rightarrow> r_running r | None \<Rightarrow> False)
      | BOBFileShareDownloader \<Rightarrow> connected a
      | JingleFileShareDownloader \<Rightarrow>
          (case (connection a, app a) of
             (Some c, Some p) \<Rightarrow> app_state p = Js_Active
           | _ \<Rightarrow> False))"


section \<open>File names\<close>

definition afterLast :: "char \<Rightarrow> string \<Rightarrow> string" where
  "afterLast c s = rev (takeWhile (\<lambda>x. x \<noteq> c) (rev s))"

definition beforeLast :: "char \<Rightarrow> string \<Rightarrow> string" where
  "beforeLast c s = rev (tl (dropWhile (\<lambda>x. x \<noteq> c) (rev s)))"

text \<open>\<open>QFileInfo::fileName\<close>, \<open>path\<close>, \<open>completeBaseName\<close> and \<open>suffix\<close>.\<close>

definition QFileInfo_fileName :: "string \<Rightarrow> string" where
  "QFileInfo_fileName p = afterLast CHR ''/'' p"

definition QFileInfo_path :: "string \<Rightarrow> string" where
  "QFileInfo_path p =
     (if CHR ''/'' \<notin> set p then ''.''
      else if beforeLast CHR ''/'' p = [] then ''/'' else beforeLast CHR ''/'' p)"

definition completeBaseName :: "string \<Rightarrow> string" where
  "completeBaseName p =
     (let n = QFileInfo_fileName p in if CHR ''.'' \<in> set n then beforeLast CHR ''.'' n else n)"

definition suffix :: "string \<Rightarrow> string" where
  "suffix p =
     (let n = QFileInfo_fileName p in if CHR ''.'' \<in> set n then afterLast CHR ''.'' n else [])"

definition absoluteFilePath :: "string \<Rightarrow> string \<Rightarrow> string" where
  "absoluteFilePath dir fn =
     (if startsWith fn ''/'' then fn
      else if dir \<noteq> [] \<and> last dir = CHR ''/'' then dir @ fn else dir @ ''/'' @ fn)"

definition hex_digit :: "nat \<Rightarrow> char" where
  "hex_digit n = (if n < 10 then char_of (48 + n) else char_of (87 + n))"

definition toHex :: "string \<Rightarrow> string" where
  "toHex ba = concat (map (\<lambda>c. [hex_digit (of_char c div 16), hex_digit (of_char c mod 16)]) ba)"

section \<open>The download orchestrator: \<open>FileShareDownloader::Private\<close>\<close>

datatype OpenModeFlag = ReadOnly | WriteOnly | Append | Truncate | Text | Unbuffered

record QFile =
  f_name :: string
  f_data :: string

text \<open>
  The fields of \<open>Private\<close> (prefixed \<open>d_\<close> where the adapter has a field of the same
  name), the open mode of the \<open>QIODevice\<close> base, and the trace of effects.
\<close>

record Private =
  sums :: "string list"
  file_name :: string
  d_jids :: "Jid list"
  uris :: "string list"
  tmpFile :: "QFile option"
  dstFileName :: string
  d_lastError :: string
  d_rangeStart :: int
  d_rangeSize :: int
  downloader :: "Downloader option"
  metaReady :: bool
  success :: bool
  openMode :: "OpenModeFlag set"
  effects :: "Effect list"

definition emit :: "Effect \<Rightarrow> Private \<Rightarrow> Private" where
  "emit e d = d\<lparr>effects := effects d @ [e]\<rparr>"

definition emits :: "Effect list \<Rightarrow> Private \<Rightarrow> Private" where
  "emits es d = d\<lparr>effects := effects d @ es\<rparr>"

text \<open>Creates the adapter for a source, hands it the requested range and starts it.\<close>

definition launch :: "Env \<Rightarrow> DownloaderClass \<Rightarrow> string \<Rightarrow> Private \<Rightarrow> Private" where
  "launch env c uri d =
     (let a = setRange (d_rangeStart d) (d_rangeSize d) (new_Downloader c uri (d_jids d));
          (a', es) = start env a
      in emits es (d\<lparr>downloader := Some a'\<rparr>))"

definition startNextDownloader :: "Env \<Rightarrow> Private \<Rightarrow> Private" where
  "startNextDownloader env d0 =
     (let d1 = (case downloader d0 of
                  Some a \<Rightarrow> d0\<lparr>d_lastError := lastError a, downloader := None\<rparr>
                | None \<Rightarrow> d0)
      in if uris d1 = []
         then emit Emit_finished
                (d1\<lparr>success := False,
                    d_lastError := (if d_lastError d1 = [] then ''Download sources are not given''
                                    else d_lastError d1)\<rparr>)
         else
           (let uri = last (uris d1);
                d2 = d1\<lparr>uris := butlast (uris d1)\<rparr>
            in case sourceType uri of
                 ST_HTTP \<Rightarrow> launch env NAMFileShareDownloader uri d2
               | ST_FTP \<Rightarrow> launch env NAMFileShareDownloader uri d2
               | ST_BOB \<Rightarrow> launch env BOBFileShareDownloader uri d2
               | ST_Jingle \<Rightarrow> launch env JingleFileShareDownloader uri d2
               | ST_None \<Rightarrow>
                   emit Emit_finished (d2\<lparr>d_lastError := ''Unhandled downloader'', success := False\<rparr>)))"

subsection \<open>The handlers connected to the adapter's signals\<close>

text \<open>
  The handlers run only on a signal of the active adapter; with no adapter they have
  nothing to run on and leave the state as it is.
\<close>

definition on_failed :: "Env \<Rightarrow> Private \<Rightarrow> Private" where
  "on_failed env d =
     (let d1 = d\<lparr>success := False\<rparr> in
      if metaReady d1
      then (case downloader d1 of
              Some a \<Rightarrow> emit Emit_finished (d1\<lparr>d_lastError := lastError a\<rparr>)
            | None \<Rightarrow> d1)
      else startNextDownloader env d1)"

definition on_metaDataChanged :: "Env \<Rightarrow> Private \<Rightarrow> Private" where
  "on_metaDataChanged env d =
     (case downloader d of
        None \<Rightarrow> d
      | Some a \<Rightarrow>
          (let d1 = d\<lparr>metaReady := True\<rparr>;
               tmpFN = QFileInfo_path (dstFileName d1) @ ''/'' @ ''dl-'' @ QFileInfo_fileName (dstFileName d1)
           in case tmpFile_open env tmpFN of
                Some err \<Rightarrow>
                  (let (a', es) = abort False [] a
                   in emit Emit_finished
                        (emits es (d1\<lparr>d_lastError := err, tmpFile := None,
                                      downloader := Some a', success := False\<rparr>)))
              | None \<Rightarrow>
                  emit Emit_metaDataChanged
                    (d1\<lparr>tmpFile := Some \<lparr>f_name = tmpFN, f_data = []\<rparr>,
                        d_rangeStart := fst (range_of a), d_rangeSize := snd (range_of a)\<rparr>)))"

definition on_readyRead :: "Private \<Rightarrow> Private" where
  "on_readyRead d = emit Emit_readyRead d"

definition on_disconnected :: "Private \<Rightarrow> Private" where
  "on_disconnected d =
     (case downloader d of
        None \<Rightarrow> d
      | Some a \<Rightarrow>
          (let d1 = emit Emit_disconnected d
           in if bytesAvailable a = 0 then emit Emit_finished d1 else d1))"

subsection \<open>\<open>FileShareDownloader\<close>\<close>

definition new_FileShareDownloader ::
  "Env \<Rightarrow> string list \<Rightarrow> string \<Rightarrow> Jid list \<Rightarrow> string list \<Rightarrow> Private" where
  "new_FileShareDownloader env sms fname js us =
     \<lparr>sums = sms, file_name = fname, d_jids = js, uris = sortSourcesByPriority (prio env) us,
      tmpFile = None, dstFileName = [], d_lastError = [], d_rangeStart = 0, d_rangeSize = 0,
      downloader = None, metaReady = False, success = False, openMode = {}, effects = []\<rparr>"

definition isSuccess :: "Private \<Rightarrow> bool" where
  "isSuccess d = success d"

definition isOpen :: "Private \<Rightarrow> bool" where
  "isOpen d = (openMode d \<noteq> {})"

definition fileName :: "Private \<Rightarrow> string" where
  "fileName d = (if success d then dstFileName d else [])"

definition d_setRange :: "int \<Rightarrow> int \<Rightarrow> Private \<Rightarrow> Private" where
  "d_setRange offset len d = d\<lparr>d_rangeStart := offset, d_rangeSize := len\<rparr>"

definition d_abort :: "Private \<Rightarrow> Private" where
  "d_abort d =
     (case downloader d of
        Some a \<Rightarrow> (let (a', es) = abort False [] a in emits es (d\<lparr>downloader := Some a'\<rparr>))
      | None \<Rightarrow> d)"

text \<open>
  \<open>readData(data, maxSize)\<close>: the count returned and the state after the pull. The bytes
  read from the adapter go to the staging file; \<open>tmpFile_write\<close> is the count the file
  reports for them.
\<close>

definition readData :: "Env \<Rightarrow> nat \<Rightarrow> Private \<Rightarrow> int \<times> Private" where
  "readData env maxSize d =
     (case (tmpFile d, downloader d) of
        (Some f, Some a) \<Rightarrow>
          (let (bytes, a1) = read a maxSize;
               bytesRead = int (length bytes);
               d1 = d\<lparr>downloader := Some a1\<rparr>
           in if tmpFile_write env bytes \<noteq> bytesRead
              then (let (a2, es) = abort False [] a1
                    in (0, emits es (d1\<lparr>downloader := Some a2,
                                        d_lastError := tmpFile_errorString env\<rparr>)))
              else
                (let d2 = d1\<lparr>tmpFile := Some (f\<lparr>f_data := f_data f @ bytes\<rparr>)\<rparr>;
                     d3 = (if \<not> isConnected a1 \<and> bytesAvailable a1 = 0
                           then emit Emit_finished (d2\<lparr>success := True\<rparr>) else d2)
                 in (bytesRead, d3)))
      | _ \<Rightarrow> (0, d))"


text \<open>
  The loop of \<open>open()\<close> that looks for a free destination name. \<open>baseName\<close>, \<open>suffix\<close>
  and \<open>index\<close> are the locals of \<open>open()\<close>; the body assigns \<open>fn\<close> only, the name
  \<open>numberedName\<close> builds from them. The loop has no bound in the source, so not
  returning is the value \<open>None\<close>.
\<close>

definition numberedName :: "string \<Rightarrow> string \<Rightarrow> int \<Rightarrow> string" where
  "numberedName baseName sfx index =
     (if sfx \<noteq> [] then baseName @ ''-'' @ QString_number index @ ''.'' @ sfx
      else baseName @ ''-'' @ QString_number index)"

partial_function (option) dstNameLoop ::
  "(string \<Rightarrow> bool) \<Rightarrow> string \<Rightarrow> string \<Rightarrow> int \<Rightarrow> string \<Rightarrow> string option" where
  "dstNameLoop ex baseName sfx index fn =
     (if ex fn then dstNameLoop ex baseName sfx index (numberedName baseName sfx index)
      else Some fn)"

declare dstNameLoop.simps [code]

definition chooseDstName :: "Env \<Rightarrow> Private \<Rightarrow> string option" where
  "chooseDstName env d =
     (let fn0 = cleanFileName env (QFileInfo_fileName (file_name d));
          fn = (if fn0 = [] then toHex (case sums d of [] \<Rightarrow> [] | h # _ \<Rightarrow> h) else fn0)
      in dstNameLoop (docDir_exists env) (completeBaseName fn) (suffix fn) 1 fn)"

text \<open>\<open>open(mode)\<close>: the result and the state after it, \<open>None\<close> when the call does not return.\<close>

definition "open" :: "Env \<Rightarrow> OpenModeFlag set \<Rightarrow> Private \<Rightarrow> (bool \<times> Private) option" where
  "open env mode d =
     (if uris d = [] \<and> ReadOnly \<notin> mode then Some (False, d\<lparr>success := False\<rparr>)
      else if isOpen d then Some (True, d)
      else (case chooseDstName env d of
              None \<Rightarrow> None
            | Some fn \<Rightarrow>
                Some (True, startNextDownloader env
                              (d\<lparr>dstFileName := absoluteFilePath (documentsDir env) fn,
                                 openMode := mode\<rparr>))))"

section \<open>Adapter callbacks\<close>

subsection \<open>Bulk transfer: \<open>NAMFileShareDownloader\<close>\<close>

definition parseHttpRangeResponse :: "Env \<Rightarrow> string \<Rightarrow> bool \<times> int \<times> int" where
  "parseHttpRangeResponse env v =
     (let arr = split_ba v CHR '' '' in
      if length arr \<noteq> 2 \<or> arr ! 0 \<noteq> ''bytes'' \<or> length (split_ba (arr ! 1) CHR ''-'') \<noteq> 2
      then (False, 0, 0)
      else
        (let arr1 = split_ba (arr ! 1) CHR ''-'';
             (ok, start) = toLongLong env (arr1 ! 0)
         in if ok
            then (let arr2 = split_ba (arr1 ! 1) CHR ''/'';
                      (ok2, e) = toLongLong env (hd arr2);
                      size = s64 (e - start + 1)
                  in if \<not> ok2 \<or> size < 0 then (False, 0, 0) else (True, start, size))
            else (False, 0, 0)))"

definition with_downloader :: "Private \<Rightarrow> Downloader \<times> Effect list \<Rightarrow> Private" where
  "with_downloader d r = emits (snd r) (d\<lparr>downloader := Some (fst r)\<rparr>)"

text \<open>\<open>namFailed\<close> deletes the reply (the pointer is kept) and reports the error.\<close>

definition namFailed :: "string \<Rightarrow> Downloader \<Rightarrow> Downloader \<times> Effect list" where
  "namFailed err a = (let (a', es) = downloadError err a in (a', ReplyDelete # es))"

text \<open>
  The handler of the reply's \<open>metaDataChanged\<close>, given the status code and the raw
  \<open>Content-Range\<close> header of the reply (empty when the header is absent).
\<close>

definition NAM_onMetaDataChanged :: "Env \<Rightarrow> int \<Rightarrow> string \<Rightarrow> Private \<Rightarrow> Private" where
  "NAM_onMetaDataChanged env status ba d =
     (case downloader d of
        None \<Rightarrow> d
      | Some a \<Rightarrow>
          if status = 206
          then (let (parsed, rs, rz) = parseHttpRangeResponse env ba;
                    a1 = a\<lparr>rangeStart := rs, rangeSize := rz\<rparr>
                in if ba \<noteq> [] \<and> \<not> parsed
                   then with_downloader d (namFailed ''Invalid HTTP response range'' a1)
                   else on_metaDataChanged env (d\<lparr>downloader := Some a1\<rparr>))
          else if status \<noteq> 200 \<and> status \<noteq> 203
          then with_downloader d
                 (namFailed (''Unexpected HTTP status'' @ '': '' @ QString_number status)
                    (a\<lparr>rangeStart := 0, rangeSize := 0\<rparr>))
          else on_metaDataChanged env d)"

text \<open>
  The handler of the reply's \<open>finished\<close>: \<open>noError\<close> is \<open>reply->error() == NoError\<close>.
  A reply that has finished is no longer running.
\<close>

definition reply_finished :: "Private \<Rightarrow> Private" where
  "reply_finished d =
     (case downloader d of
        None \<Rightarrow> d
      | Some a \<Rightarrow>
          (case reply a of
             None \<Rightarrow> d
           | Some r \<Rightarrow> d\<lparr>downloader := Some (a\<lparr>reply := Some (r\<lparr>r_running := False\<rparr>)\<rparr>)\<rparr>))"

definition NAM_onFinished :: "Env \<Rightarrow> bool \<Rightarrow> Private \<Rightarrow> Private" where
  "NAM_onFinished env noError d =
     (if noError then on_disconnected (reply_finished d) else on_failed env (reply_finished d))"

text \<open>
  The reply's \<open>readyRead\<close>, forwarded unchanged; \<open>bytes\<close> is what the reply has received
  since the last signal.
\<close>

definition NAM_onReadyRead :: "string \<Rightarrow> Private \<Rightarrow> Private" where
  "NAM_onReadyRead bytes d =
     (case downloader d of
        None \<Rightarrow> d
      | Some a \<Rightarrow>
          (case reply a of
             None \<Rightarrow> d
           | Some r \<Rightarrow>
               on_readyRead
                 (d\<lparr>downloader := Some (a\<lparr>reply := Some (r\<lparr>r_bytes := r_bytes r @ bytes\<rparr>)\<rparr>)\<rparr>)))"

subsection \<open>Inline blob: \<open>BOBFileShareDownloader\<close>\<close>

definition set_connected :: "bool \<Rightarrow> Private \<Rightarrow> Private" where
  "set_connected b d =
     (case downloader d of Some a \<Rightarrow> d\<lparr>downloader := Some (a\<lparr>connected := b\<rparr>)\<rparr> | None \<Rightarrow> d)"

text \<open>The callback handed to \<open>loadBob\<close>; the signals it emits run the orchestrator's handlers.\<close>

definition BOB_onLoaded :: "Env \<Rightarrow> bool \<Rightarrow> string \<Rightarrow> Private \<Rightarrow> Private" where
  "BOB_onLoaded env ok dat d =
     (case downloader d of
        None \<Rightarrow> d
      | Some a \<Rightarrow>
          if destroyed a then d
          else
            (let a1 = a\<lparr>connected := True\<rparr> in
             if \<not> ok
             then with_downloader d
                    (downloadError (''Download using '' @ CHR 0x22 # ''Bits Of Binary'' @ CHR 0x22 # '' failed'') a1)
             else
               (let a2 = a1\<lparr>receivedData := dat\<rparr>;
                    a3 = (if isRanged a2 then a2\<lparr>rangeStart := 0, rangeSize := 0\<rparr> else a2);
                    d1 = on_metaDataChanged env (d\<lparr>downloader := Some a3\<rparr>);
                    d2 = set_connected False d1
                in on_disconnected d2)))"

subsection \<open>Peer transfer: \<open>JingleFileShareDownloader\<close>\<close>

text \<open>\<open>connectionReady\<close>, with the range the remote accepted (unsigned 64-bit values).\<close>

definition Jingle_onConnectionReady :: "Env \<Rightarrow> int \<times> int \<Rightarrow> Private \<Rightarrow> Private" where
  "Jingle_onConnectionReady env r d =
     (case downloader d of
        None \<Rightarrow> d
      | Some a \<Rightarrow>
          on_metaDataChanged env
            (d\<lparr>downloader := Some (a\<lparr>rangeStart := s64 (fst r), rangeSize := s64 (snd r),
                                    connection := Some []\<rparr>)\<rparr>))"

text \<open>\<open>stateChanged\<close>; \<open>okReason\<close> says the termination reason is valid and is Success.\<close>

definition Jingle_onStateChanged :: "JingleState \<Rightarrow> bool \<Rightarrow> Private \<Rightarrow> Private" where
  "Jingle_onStateChanged st okReason d =
     (case downloader d of
        None \<Rightarrow> d
      | Some a \<Rightarrow>
          if st \<noteq> Js_Finished then d
          else (let a1 = a\<lparr>app := None\<rparr> in
                if okReason then on_disconnected (d\<lparr>downloader := Some a1\<rparr>)
                else with_downloader d (downloadError ''Jingle download failed'' a1)))"

definition Jingle_onNewContentReceived :: "Private \<Rightarrow> Private" where
  "Jingle_onNewContentReceived d =
     (case downloader d of
        None \<Rightarrow> d
      | Some a \<Rightarrow>
          emit JingleTerminate (d\<lparr>downloader := Some (a\<lparr>lastError := ''Unexpected incoming content''\<rparr>)\<rparr>))"


section \<open>The shareable item: \<open>FileSharingItem::publish\<close> (filesharingitem.cpp)\<close>

datatype FileType = LocalFile | LocalLink | TempFile | RemoteFile

datatype Flag = SizeKnown | HttpFinished | JingleFinished | PublishNotified

datatype QVariant = V_String string | V_StringList "string list" | V_ByteArray string

type_synonym QVariantMap = "(string \<times> QVariant) list"

definition vm_insert :: "string \<Rightarrow> QVariant \<Rightarrow> QVariantMap \<Rightarrow> QVariantMap" where
  "vm_insert k v m = (k, v) # filter (\<lambda>kv. fst kv \<noteq> k) m"

definition TEMP_TTL :: int where
  "TEMP_TTL = 7 * 24 * 3600"

definition FILE_TTL :: int where
  "FILE_TTL = 365 * 24 * 3600"

record FileSharingItem =
  i_fileType :: FileType
  i_flags :: "Flag set"
  i_fileName :: string
  i_mimeType :: string
  i_sums :: "string list"
  i_uris :: "string list"
  i_metaData :: QVariantMap
  i_log :: "string list"

datatype ItemEffect =
    Upload string string string
  | MoveToCache "string list" string QVariantMap int
  | SaveToCache "string list" string QVariantMap int
  | Emit_publishFinished
  | Emit_logChanged

text \<open>
  What \<open>publish\<close> asks of the managers: whether the upload service is known to be
  absent, the cache directory, the file name of the cache entry that \<open>moveToCache\<close>
  returns, and \<open>FileUtil::mimeToFileExt\<close>.
\<close>

record ItemEnv =
  discoNotFound :: bool
  cacheDir :: string
  cache_fileName :: "string list \<Rightarrow> string"
  mimeToFileExt :: "string \<Rightarrow> string"

datatype PublishError = AssertionFailed

text \<open>\<open>displayName\<close>; every constructor gives the item a digest before it can be published.\<close>

definition displayName :: "ItemEnv \<Rightarrow> FileSharingItem \<Rightarrow> string" where
  "displayName ie it =
     (if i_fileName it = []
      then filter (\<lambda>c. c \<noteq> CHR ''/'')
             (''psi-'' @ toHex (case i_sums it of [] \<Rightarrow> [] | h # _ \<Rightarrow> h) @ ''.'' @
              mimeToFileExt ie (i_mimeType it))
      else QFileInfo_fileName (i_fileName it))"

text \<open>The lambda \<open>checkFinished\<close> of \<open>publish\<close>.\<close>

definition checkFinished :: "ItemEnv \<Rightarrow> FileSharingItem \<Rightarrow> FileSharingItem \<times> ItemEffect list" where
  "checkFinished ie it =
     (if PublishNotified \<notin> i_flags it \<and> {HttpFinished, JingleFinished} \<subseteq> i_flags it
      then
        (let meta0 = vm_insert ''type'' (V_String (i_mimeType it)) (i_metaData it);
             meta = (if i_uris it \<noteq> [] then vm_insert ''uris'' (V_StringList (i_uris it)) meta0
                     else meta0);
             (it1, es) =
               (if i_fileType it = TempFile
                then (it\<lparr>i_fileType := LocalFile,
                         i_fileName := cacheDir ie @ ''/'' @ cache_fileName ie (i_sums it)\<rparr>,
                      [MoveToCache (i_sums it) (i_fileName it) meta TEMP_TTL])
                else (it, [SaveToCache (i_sums it) []
                             (vm_insert ''link'' (V_String (i_fileName it)) meta) FILE_TTL]))
         in (it1\<lparr>i_flags := insert PublishNotified (i_flags it1)\<rparr>, es @ [Emit_publishFinished]))
      else (it, []))"

text \<open>The body of \<open>publish\<close> after its assertion.\<close>

definition publish_body :: "ItemEnv \<Rightarrow> FileSharingItem \<Rightarrow> FileSharingItem \<times> ItemEffect list" where
  "publish_body ie it =
     (let (it1, es1) =
            (if HttpFinished \<notin> i_flags it
             then (if discoNotFound ie
                   then checkFinished ie (it\<lparr>i_flags := insert HttpFinished (i_flags it)\<rparr>)
                   else (it, [Upload (i_fileName it) (displayName ie it) (i_mimeType it)]))
             else (it, []));
          (it2, es2) =
            (if JingleFinished \<notin> i_flags it1
             then checkFinished ie (it1\<lparr>i_flags := insert JingleFinished (i_flags it1)\<rparr>)
             else (it1, []))
      in (it2, es1 @ es2))"

definition publish :: "ItemEnv \<Rightarrow> FileSharingItem \<Rightarrow> PublishError + FileSharingItem \<times> ItemEffect list" where
  "publish ie it =
     (if i_fileType it = RemoteFile then Inl AssertionFailed else Inr (publish_body ie it))"

text \<open>The handler of the upload's \<open>finished\<close>: success with the URL, or the status text.\<close>

definition on_uploadFinished ::
  "ItemEnv \<Rightarrow> bool \<Rightarrow> string \<Rightarrow> string \<Rightarrow> FileSharingItem \<Rightarrow> FileSharingItem \<times> ItemEffect list" where
  "on_uploadFinished ie ok url statusString it =
     (let it1 = it\<lparr>i_flags := insert HttpFinished (i_flags it)\<rparr>;
          it2 = (if ok then it1\<lparr>i_log := i_log it1 @ [''Published on HttpUpload service''],
                                i_uris := i_uris it1 @ [url]\<rparr>
                 else it1\<lparr>i_log := i_log it1 @
                            [''Failed to publish on HttpUpload service'' @ '': '' @ statusString]\<rparr>);
          (it3, es) = checkFinished ie it2
      in (it3, Emit_logChanged # es))"


section \<open>A sample environment and sample states\<close>

definition jid_me :: Jid where
  "jid_me = \<lparr>node = ''me'', domain = ''x.org'', resource = ''pc'', isValid = True\<rparr>"

definition jid_off :: Jid where
  "jid_off = \<lparr>node = ''ann'', domain = ''x.org'', resource = ''tablet'', isValid = True\<rparr>"

definition jid_on :: Jid where
  "jid_on = \<lparr>node = ''bob'', domain = ''x.org'', resource = ''phone'', isValid = True\<rparr>"

text \<open>
  Only \<open>bob\<close> is in the roster with a resource online; the documents directory holds
  \<open>a.txt\<close> and \<open>a-1.txt\<close>; the staging file opens and takes every byte; numbers
  are read by \<open>decimal\<close>, which takes plain digit strings below \<open>2 ^ 63\<close>.
\<close>

fun decimal_acc :: "int \<Rightarrow> string \<Rightarrow> bool \<times> int" where
  "decimal_acc n [] = (if n < 2 ^ 63 then (True, n) else (False, 0))"
| "decimal_acc n (c # cs) =
     (if 48 \<le> (of_char c :: nat) \<and> (of_char c :: nat) \<le> 57
      then decimal_acc (10 * n + int (of_char c) - 48) cs else (False, 0))"

definition decimal :: "string \<Rightarrow> bool \<times> int" where
  "decimal s = (if s = [] then (False, 0) else decimal_acc 0 s)"

definition env0 :: Env where
  "env0 =
     \<lparr>client_jid = jid_me,
      findRelevant = (\<lambda>j. if node j = ''bob'' then [\<lparr>userResourceList = [''phone'']\<rparr>] else []),
      url_path = (\<lambda>u. []), url_queryType = (\<lambda>u. ''jingle-ft''),
      jidFromString = (\<lambda>s. Jid_null), jingleFtEnabled = True, documentsDir = ''/docs'',
      docDir_exists = (\<lambda>n. n = ''a.txt'' \<or> n = ''a-1.txt''),
      cleanFileName = (\<lambda>n. n),
      prio = (\<lambda>t. case t of ST_None \<Rightarrow> 0 | ST_BOB \<Rightarrow> 1 | ST_FTP \<Rightarrow> 2 | ST_Jingle \<Rightarrow> 3
                   | ST_HTTP \<Rightarrow> 4),
      tmpFile_open = (\<lambda>n. None), tmpFile_write = (\<lambda>bs. int (length bs)),
      tmpFile_errorString = [],
      toLongLong = decimal\<rparr>"

text \<open>An orchestrator that has opened \<open>http://a/f\<close> and still holds \<open>http://b/f\<close>.\<close>

definition nam0 :: Downloader where
  "nam0 = (new_Downloader NAMFileShareDownloader ''http://a/f'' [])
            \<lparr>reply := Some \<lparr>r_bytes = [], r_running = True\<rparr>\<rparr>"

definition d_trying :: Private where
  "d_trying =
     \<lparr>sums = [], file_name = ''b.txt'', d_jids = [], uris = [''http://b/f''], tmpFile = None,
      dstFileName = ''/docs/b.txt'', d_lastError = [], d_rangeStart = 0, d_rangeSize = 0,
      downloader = Some nam0, metaReady = False, success = False, openMode = {ReadOnly},
      effects = [HttpGet ''http://a/f'' None]\<rparr>"

text \<open>
  An orchestrator whose inline-blob adapter has delivered its three bytes and is no
  longer connected; the staging file is open.
\<close>

definition bob0 :: Downloader where
  "bob0 = (new_Downloader BOBFileShareDownloader ''cid:abc'' [jid_off, jid_on])
            \<lparr>receivedData := ''xyz''\<rparr>"

definition d_streaming :: Private where
  "d_streaming =
     \<lparr>sums = [], file_name = ''b.txt'', d_jids = [jid_off, jid_on], uris = [],
      tmpFile = Some \<lparr>f_name = ''/docs/dl-b.txt'', f_data = []\<rparr>,
      dstFileName = ''/docs/b.txt'', d_lastError = [], d_rangeStart = 0, d_rangeSize = 0,
      downloader = Some bob0, metaReady = True, success = False, openMode = {ReadOnly},
      effects = [LoadBob jid_off ''abc'', Emit_metaDataChanged, Emit_disconnected]\<rparr>"

text \<open>Two new orchestrators: one with no source, one for a file named \<open>a.txt\<close>.\<close>

definition d_new_empty :: Private where
  "d_new_empty = new_FileShareDownloader env0 [] ''b.txt'' [] []"

definition d_new_a :: Private where
  "d_new_a = new_FileShareDownloader env0 [] ''/home/me/a.txt'' [] [''http://a/f'']"

text \<open>The orchestrator of \<open>d_trying\<close>, opened with the requested range \<open>(100, 50)\<close>.\<close>

definition d_ranged :: Private where
  "d_ranged = d_trying\<lparr>d_rangeStart := 100, d_rangeSize := 50,
                 downloader := Some (setRange 100 50 nam0),
                 effects := [HttpGet ''http://a/f'' (Some ''bytes=100-149'')]\<rparr>"

text \<open>
  An orchestrator opened on \<open>cid:abc\<close> with the requested range \<open>(5, 10)\<close>, waiting for
  the inline blob.
\<close>

definition bob_ranged :: Downloader where
  "bob_ranged = setRange 5 10 (new_Downloader BOBFileShareDownloader ''cid:abc'' [jid_off, jid_on])"

definition d_loading :: Private where
  "d_loading =
     \<lparr>sums = [], file_name = ''b.txt'', d_jids = [jid_off, jid_on], uris = [], tmpFile = None,
      dstFileName = ''/docs/b.txt'', d_lastError = [], d_rangeStart = 5, d_rangeSize = 10,
      downloader = Some bob_ranged, metaReady = False, success = False, openMode = {ReadOnly},
      effects = [LoadBob jid_off ''abc'']\<rparr>"

text \<open>
  An item made from an image, before and after its first \<open>publish\<close>, with no upload
  service discovered.
\<close>

definition ie0 :: ItemEnv where
  "ie0 = \<lparr>discoNotFound = True, cacheDir = ''/cache'', cache_fileName = (\<lambda>s. ''c1.png''),
          mimeToFileExt = (\<lambda>m. ''png'')\<rparr>"

definition it0 :: FileSharingItem where
  "it0 = \<lparr>i_fileType = TempFile, i_flags = {SizeKnown}, i_fileName = ''/tmp/psishare-1.png'',
          i_mimeType = ''image/png'', i_sums = [''h''], i_uris = [], i_metaData = [], i_log = []\<rparr>"

definition it1 :: FileSharingItem where
  "it1 = \<lparr>i_fileType = LocalFile,
          i_flags = {SizeKnown, HttpFinished, JingleFinished, PublishNotified},
          i_fileName = ''/cache/c1.png'',
          i_mimeType = ''image/png'', i_sums = [''h''], i_uris = [], i_metaData = [], i_log = []\<rparr>"

text \<open>
  The orchestrator of \<open>d_trying\<close> after \<open>http://a/f\<close> answered 404 and the queued
  \<open>failed\<close> was delivered: the text of the first adapter is recorded and the adapter for
  \<open>http://b/f\<close>, the last source, is running.
\<close>

definition nam_b :: Downloader where
  "nam_b = (new_Downloader NAMFileShareDownloader ''http://b/f'' [])
            \<lparr>reply := Some \<lparr>r_bytes = [], r_running = True\<rparr>\<rparr>"

definition d_second :: Private where
  "d_second =
     \<lparr>sums = [], file_name = ''b.txt'', d_jids = [], uris = [], tmpFile = None,
      dstFileName = ''/docs/b.txt'', d_lastError = ''Unexpected HTTP status: 404'',
      d_rangeStart = 0, d_rangeSize = 0,
      downloader = Some nam_b, metaReady = False, success = False, openMode = {ReadOnly},
      effects = [HttpGet ''http://a/f'' None, ReplyDelete, SingleShot_failed,
                 HttpGet ''http://b/f'' None]\<rparr>"

text \<open>
  The orchestrator of \<open>d_trying\<close> after \<open>http://a/f\<close> answered 200, delivered three
  bytes and then stopped: metadata reported, staging file open, three bytes buffered.
\<close>

definition nam_done :: Downloader where
  "nam_done = nam0\<lparr>reply := Some \<lparr>r_bytes = ''xyz'', r_running = False\<rparr>\<rparr>"

definition d_dropped :: Private where
  "d_dropped =
     \<lparr>sums = [], file_name = ''b.txt'', d_jids = [], uris = [''http://b/f''],
      tmpFile = Some \<lparr>f_name = ''/docs/dl-b.txt'', f_data = []\<rparr>,
      dstFileName = ''/docs/b.txt'', d_lastError = [], d_rangeStart = 0, d_rangeSize = 0,
      downloader = Some nam_done, metaReady = True, success = False, openMode = {ReadOnly},
      effects = [HttpGet ''http://a/f'' None, Emit_metaDataChanged, Emit_readyRead]\<rparr>"

text \<open>The sample states are the states the code reaches from new orchestrators.\<close>

lemma d_trying_reachable:
  "open env0 {ReadOnly} (new_FileShareDownloader env0 [] ''b.txt'' [] [''http://a/f'', ''http://b/f''])
     = Some (True, d_trying)"
  by code_simp

lemma d_ranged_reachable:
  "open env0 {ReadOnly}
     (d_setRange 100 50 (new_FileShareDownloader env0 [] ''b.txt'' [] [''http://a/f'', ''http://b/f'']))
     = Some (True, d_ranged)"
  by code_simp

lemma d_streaming_reachable:
  "map_option (\<lambda>r. BOB_onLoaded env0 True ''xyz'' (snd r))
     (open env0 {ReadOnly} (new_FileShareDownloader env0 [] ''b.txt'' [jid_off, jid_on] [''cid:abc'']))
     = Some d_streaming"
  by code_simp

lemma d_loading_reachable:
  "open env0 {ReadOnly}
     (d_setRange 5 10 (new_FileShareDownloader env0 [] ''b.txt'' [jid_off, jid_on] [''cid:abc'']))
     = Some (True, d_loading)"
  by code_simp

lemma d_second_reachable:
  "on_failed env0 (NAM_onMetaDataChanged env0 404 [] d_trying) = d_second"
  by code_simp

lemma d_dropped_reachable:
  "reply_finished (NAM_onReadyRead ''xyz'' (NAM_onMetaDataChanged env0 200 [] d_trying)) = d_dropped"
  by code_simp

section \<open>Properties of the orchestrator\<close>

lemma effects_emit [simp]: "effects (emit e d) = effects d @ [e]"
  by (simp add: emit_def)

lemma launch_fields [simp]:
  "success (launch env c uri d) = success d"
  "metaReady (launch env c uri d) = metaReady d"
  "uris (launch env c uri d) = uris d"
  "d_lastError (launch env c uri d) = d_lastError d"
  "dstFileName (launch env c uri d) = dstFileName d"
  by (simp_all add: launch_def emits_def split: prod.splits)

lemma success_startNextDownloader:
  "\<not> success d \<Longrightarrow> \<not> success (startNextDownloader env d)"
  by (simp add: startNextDownloader_def Let_def emit_def split: option.splits SourceType.splits)

lemma success_on_failed: "\<not> success (on_failed env d)"
  by (simp add: on_failed_def Let_def emit_def success_startNextDownloader split: option.splits)

lemma metaReady_on_metaDataChanged:
  "downloader d = Some a \<Longrightarrow> metaReady (on_metaDataChanged env d)"
  by (simp add: on_metaDataChanged_def Let_def emit_def emits_def split: option.splits prod.splits)

text \<open>Once set, \<open>metaReady\<close> stays set: no handler and no pull resets it.\<close>

lemma metaReady_startNextDownloader:
  "metaReady (startNextDownloader env d) = metaReady d"
  by (simp add: startNextDownloader_def Let_def emit_def split: option.splits SourceType.splits)

lemma metaReady_kept:
  assumes "metaReady d"
  shows "metaReady (on_metaDataChanged env d)" and "metaReady (on_readyRead d)"
    and "metaReady (on_disconnected d)" and "metaReady (snd (readData env n d))"
    and "metaReady (d_abort d)" and "metaReady (on_failed env d)"
  using assms
  by (simp_all add: on_metaDataChanged_def on_readyRead_def on_disconnected_def readData_def
        d_abort_def on_failed_def metaReady_startNextDownloader Let_def emit_def emits_def
        case_prod_beta split: option.splits)

text \<open>The success flag is raised by a pull only; no handler sets it.\<close>

lemma success_not_raised:
  assumes "\<not> success d"
  shows "\<not> success (on_metaDataChanged env d)" and "\<not> success (on_readyRead d)"
    and "\<not> success (on_disconnected d)" and "\<not> success (d_abort d)"
    and "\<not> success (startNextDownloader env d)"
  using assms
  by (simp_all add: on_metaDataChanged_def on_readyRead_def on_disconnected_def
        d_abort_def success_startNextDownloader Let_def emit_def emits_def
        case_prod_beta split: option.splits)

text \<open>
  C1: once the metadata handler has run (\<open>metaReady\<close> is set), the \<open>failed\<close> handler ends
  the download: one \<open>finished\<close> is emitted, the success flag is off, the error is the
  adapter's last error, the source list is untouched and no other adapter is started.
\<close>

theorem failed_after_metadata_is_terminal:
  assumes "metaReady d" and "downloader d = Some a"
  shows "on_failed env d = emit Emit_finished (d\<lparr>success := False, d_lastError := lastError a\<rparr>)
     \<and> \<not> success (on_failed env d)
     \<and> d_lastError (on_failed env d) = lastError a
     \<and> uris (on_failed env d) = uris d
     \<and> downloader (on_failed env d) = Some a
     \<and> effects (on_failed env d) = effects d @ [Emit_finished]"
  using assms by (simp add: on_failed_def Let_def emit_def)

theorem failed_after_metadata_is_terminal_witness:
  "metaReady (on_metaDataChanged env0 d_trying)
   \<and> downloader (on_metaDataChanged env0 d_trying) = Some nam0
   \<and> uris (on_failed env0 (on_metaDataChanged env0 d_trying)) = [''http://b/f'']
   \<and> \<not> success (on_failed env0 (on_metaDataChanged env0 d_trying))
   \<and> downloader (on_failed env0 (on_metaDataChanged env0 d_trying)) = Some nam0
   \<and> effects (on_failed env0 (on_metaDataChanged env0 d_trying)) =
       [HttpGet ''http://a/f'' None, Emit_metaDataChanged, Emit_finished]"
proof -
  have m: "metaReady (on_metaDataChanged env0 d_trying)"
    by (simp add: metaReady_on_metaDataChanged d_trying_def)
  have a: "downloader (on_metaDataChanged env0 d_trying) = Some nam0"
    by (simp add: on_metaDataChanged_def d_trying_def env0_def Let_def emit_def)
  have e: "effects (on_metaDataChanged env0 d_trying) = [HttpGet ''http://a/f'' None, Emit_metaDataChanged]"
    by (simp add: on_metaDataChanged_def d_trying_def env0_def Let_def emit_def)
  have u: "uris (on_metaDataChanged env0 d_trying) = [''http://b/f'']"
    by (simp add: on_metaDataChanged_def d_trying_def env0_def Let_def emit_def)
  show ?thesis
    using failed_after_metadata_is_terminal [OF m a, of env0] m a e u
    by (simp add: emit_def)
qed

lemma set_multimap_insert: "set (multimap_insert k v m) = insert (k, v) (set m)"
  by (induction m) (auto split: if_splits)

lemma foldl_sources_subset:
  "snd ` set (foldl (\<lambda>sorted u. let type = sourceType u in
        if type \<noteq> ST_None then multimap_insert (p type) u sorted else sorted) acc us)
   = snd ` set acc \<union> {u \<in> set us. sourceType u \<noteq> ST_None}"
  by (induction us arbitrary: acc) (auto simp: Let_def set_multimap_insert)

lemma sortSourcesByPriority_set:
  "set (sortSourcesByPriority p us) = {u \<in> set us. sourceType u \<noteq> ST_None}"
  using foldl_sources_subset [of p "[]" us] by (simp add: sortSourcesByPriority_def)

lemma launch_downloader:
  "\<exists>a'. downloader (launch env c uri d) = Some a' \<and> sourceUri a' = uri \<and> cls a' = c"
  by (cases c)
     (auto simp: launch_def emits_def start_def NAM_start_def BOB_start_def Jingle_start_def
        downloadError_def setRange_def new_Downloader_def Let_def split: prod.splits if_splits)

text \<open>
  The ranked list of a new orchestrator holds sources of known kinds only, and the
  handlers only take sources away from it.
\<close>

lemma uris_startNextDownloader:
  "set (uris (startNextDownloader env d)) \<subseteq> set (uris d)"
  by (auto simp add: startNextDownloader_def Let_def emit_def
        split: option.splits SourceType.splits dest: in_set_butlastD)

lemma uris_on_failed: "set (uris (on_failed env d)) \<subseteq> set (uris d)"
  using uris_startNextDownloader [of env "d\<lparr>success := False\<rparr>"]
  by (auto simp add: on_failed_def Let_def emit_def split: option.splits)

lemma uris_new_known:
  "u \<in> set (uris (new_FileShareDownloader env sms fname js us)) \<Longrightarrow> sourceType u \<noteq> ST_None"
  by (simp add: new_FileShareDownloader_def sortSourcesByPriority_set)

text \<open>
  What the \<open>failed\<close> handler does before any metadata: with no source left the download
  finishes with the text of the adapter that failed, or the generic text when that text
  is empty; with a source left (of a known kind) the last source is popped, an adapter of
  its kind is created with the requested range and started.
\<close>

lemma on_failed_exhausted:
  assumes "\<not> metaReady d" and "downloader d = Some a" and "uris d = []"
  shows "on_failed env d =
           emit Emit_finished
             (d\<lparr>success := False, downloader := None,
                d_lastError := (if lastError a = [] then ''Download sources are not given''
                                else lastError a)\<rparr>)"
  using assms by (simp add: on_failed_def startNextDownloader_def Let_def emit_def)

lemma on_failed_next_source:
  assumes "\<not> metaReady d" and "downloader d = Some a" and "uris d \<noteq> []"
    and "sourceType (last (uris d)) \<noteq> ST_None"
    and "c = (case sourceType (last (uris d)) of
                ST_BOB \<Rightarrow> BOBFileShareDownloader
              | ST_Jingle \<Rightarrow> JingleFileShareDownloader
              | _ \<Rightarrow> NAMFileShareDownloader)"
    and "a0 = setRange (d_rangeStart d) (d_rangeSize d) (new_Downloader c (last (uris d)) (d_jids d))"
  shows "on_failed env d =
           d\<lparr>success := False, d_lastError := lastError a, uris := butlast (uris d),
             downloader := Some (fst (start env a0)),
             effects := effects d @ snd (start env a0)\<rparr>"
  using assms
  by (cases "sourceType (last (uris d))")
     (simp_all add: on_failed_def startNextDownloader_def launch_def emits_def Let_def
        case_prod_beta)

lemma reply_finished_fields [simp]:
  "metaReady (reply_finished d) = metaReady d"
  "uris (reply_finished d) = uris d"
  "d_lastError (reply_finished d) = d_lastError d"
  "effects (reply_finished d) = effects d"
  "tmpFile (reply_finished d) = tmpFile d"
  "dstFileName (reply_finished d) = dstFileName d"
  "success (reply_finished d) = success d"
  by (simp_all add: reply_finished_def split: option.splits)

lemma reply_finished_downloader:
  "downloader d = Some a \<Longrightarrow>
   \<exists>a'. downloader (reply_finished d) = Some a' \<and> lastError a' = lastError a
        \<and> reply_finished d = d\<lparr>downloader := Some a'\<rparr>"
  by (auto simp add: reply_finished_def split: option.splits)

text \<open>
  C2 (fails on the code): a bulk-transfer adapter whose reply ends in a network error
  emits \<open>failed\<close> without setting an error text. When it is the last source and fails
  before any metadata, the orchestrator overwrites the error it had recorded from an
  earlier adapter with the empty text and finishes with
  \<open>Download sources are not given\<close>.
\<close>

theorem failure_without_text_reports_no_sources:
  assumes "\<not> metaReady d" and "downloader d = Some a" and "lastError a = []"
    and "uris d = []"
  shows "NAM_onFinished env False d =
           emit Emit_finished
             (d\<lparr>success := False, downloader := None,
                d_lastError := ''Download sources are not given''\<rparr>)"
proof -
  obtain a' where a': "downloader (reply_finished d) = Some a'" "lastError a' = lastError a"
      "reply_finished d = d\<lparr>downloader := Some a'\<rparr>"
    using reply_finished_downloader [OF assms(2)] by blast
  have "on_failed env (reply_finished d) =
          emit Emit_finished
             (reply_finished d\<lparr>success := False, downloader := None,
                d_lastError := (if lastError a' = [] then ''Download sources are not given''
                                else lastError a')\<rparr>)"
    using assms(1,4) a'(1) by (intro on_failed_exhausted) simp_all
  then show ?thesis
    using a'(2,3) assms(3) by (simp add: NAM_onFinished_def)
qed

theorem failure_without_text_reports_no_sources_witness:
  "d_lastError (on_failed env0 (NAM_onMetaDataChanged env0 404 [] d_trying)) =
     ''Unexpected HTTP status: 404''
   \<and> uris (on_failed env0 (NAM_onMetaDataChanged env0 404 [] d_trying)) = []
   \<and> effects (on_failed env0 (NAM_onMetaDataChanged env0 404 [] d_trying)) =
       [HttpGet ''http://a/f'' None, ReplyDelete, SingleShot_failed, HttpGet ''http://b/f'' None]
   \<and> d_lastError (NAM_onFinished env0 False
        (on_failed env0 (NAM_onMetaDataChanged env0 404 [] d_trying))) =
     ''Download sources are not given''
   \<and> effects (NAM_onFinished env0 False
        (on_failed env0 (NAM_onMetaDataChanged env0 404 [] d_trying))) =
       [HttpGet ''http://a/f'' None, ReplyDelete, SingleShot_failed, HttpGet ''http://b/f'' None,
        Emit_finished]"
proof -
  have m: "\<not> metaReady d_second" and a: "downloader d_second = Some nam_b"
    and u: "uris d_second = []"
    by (simp_all add: d_second_def)
  have l: "lastError nam_b = []" by (simp add: nam_b_def new_Downloader_def)
  show ?thesis
    using failure_without_text_reports_no_sources [OF m a l u, of env0]
    by (simp add: d_second_reachable emit_def) (simp add: d_second_def)
qed

section \<open>Properties of the stream\<close>

lemma read_isConnected: "isConnected (snd (read a n)) = isConnected a"
  by (simp add: read_def isConnected_def split: DownloaderClass.splits option.splits)

lemma read_bytesAvailable: "bytesAvailable (snd (read a n)) = bytesAvailable a - n"
  by (simp add: read_def bytesAvailable_def mid_def split: DownloaderClass.splits option.splits)

lemma read_length: "length (fst (read a n)) = min n (bytesAvailable a)"
  by (auto simp add: read_def bytesAvailable_def split: DownloaderClass.splits option.splits)

lemma readData_last_pull:
  assumes "tmpFile d = Some f" and "downloader d = Some a"
    and "\<not> isConnected a" and "bytesAvailable a \<le> n"
    and "\<And>bs. tmpFile_write env bs = int (length bs)"
  shows "readData env n d =
     (int (bytesAvailable a),
      emit Emit_finished
        (d\<lparr>downloader := Some (snd (read a n)),
           tmpFile := Some (f\<lparr>f_data := f_data f @ fst (read a n)\<rparr>), success := True\<rparr>))"
  using assms read_isConnected [of a n] read_bytesAvailable [of a n] read_length [of a n]
  by (simp add: readData_def Let_def case_prod_beta)

text \<open>
  C3 (fails on the code): a pull that finds the adapter disconnected and drained sets
  the success flag and emits \<open>finished\<close>; nothing records that it did, so every later
  pull of the session emits \<open>finished\<close> again.
\<close>

theorem readData_emits_finished_on_every_later_pull:
  assumes "tmpFile d = Some f" and "downloader d = Some a"
    and "\<not> isConnected a" and "bytesAvailable a \<le> n"
    and "\<And>bs. tmpFile_write env bs = int (length bs)"
  shows "success (snd (readData env n d))
     \<and> effects (snd (readData env n d)) = effects d @ [Emit_finished]
     \<and> fst (readData env m (snd (readData env n d))) = 0
     \<and> effects (snd (readData env m (snd (readData env n d)))) =
         effects d @ [Emit_finished, Emit_finished]"
proof -
  let ?a1 = "snd (read a n)"
  let ?d1 = "snd (readData env n d)"
  have d1: "?d1 = emit Emit_finished
        (d\<lparr>downloader := Some ?a1,
           tmpFile := Some (f\<lparr>f_data := f_data f @ fst (read a n)\<rparr>), success := True\<rparr>)"
    using readData_last_pull [OF assms] by simp
  have t: "tmpFile ?d1 = Some (f\<lparr>f_data := f_data f @ fst (read a n)\<rparr>)"
    and w: "downloader ?d1 = Some ?a1"
    by (simp_all add: d1 emit_def)
  have c: "\<not> isConnected ?a1" using assms(3) by (simp add: read_isConnected)
  have b: "bytesAvailable ?a1 \<le> m" using assms(4) by (simp add: read_bytesAvailable)
  have z: "bytesAvailable ?a1 = 0" using assms(4) by (simp add: read_bytesAvailable)
  have d2: "readData env m ?d1 = (0, emit Emit_finished
        (?d1\<lparr>downloader := Some (snd (read ?a1 m)),
           tmpFile := Some (f\<lparr>f_data := f_data f @ fst (read a n)\<rparr>\<lparr>f_data := f_data (f\<lparr>f_data := f_data f @ fst (read a n)\<rparr>) @ fst (read ?a1 m)\<rparr>), success := True\<rparr>))"
    using readData_last_pull [OF t w c b assms(5)] z by simp
  show ?thesis
    by (simp add: d2) (simp add: d1 emit_def)
qed

theorem readData_emits_finished_on_every_later_pull_witness:
  "fst (readData env0 10 d_streaming) = 3
   \<and> success (snd (readData env0 10 d_streaming))
   \<and> fst (readData env0 10 (snd (readData env0 10 d_streaming))) = 0
   \<and> effects (snd (readData env0 10 (snd (readData env0 10 d_streaming)))) =
       [LoadBob jid_off ''abc'', Emit_metaDataChanged, Emit_disconnected,
        Emit_finished, Emit_finished]"
proof -
  have t: "tmpFile d_streaming = Some \<lparr>f_name = ''/docs/dl-b.txt'', f_data = []\<rparr>"
    and w: "downloader d_streaming = Some bob0"
    by (simp_all add: d_streaming_def)
  have c: "\<not> isConnected bob0"
    by (simp add: isConnected_def bob0_def new_Downloader_def)
  have b: "bytesAvailable bob0 \<le> 10"
    by (simp add: bytesAvailable_def bob0_def new_Downloader_def)
  have e: "\<And>bs. tmpFile_write env0 bs = int (length bs)"
    by (simp add: env0_def)
  have r: "fst (readData env0 10 d_streaming) = 3"
    using readData_last_pull [OF t w c b e]
    by (simp add: bytesAvailable_def bob0_def new_Downloader_def)
  show ?thesis
    using readData_emits_finished_on_every_later_pull [OF t w c b e, of 10] r
    by (simp add: d_streaming_def)
qed


lemma fileName_by_flag: "fileName d = (if success d then dstFileName d else [])"
  by (simp add: fileName_def)

text \<open>
  C10 (fails on the code): \<open>fileName()\<close> is empty right after a failed download, but
  the staging file and the adapter stay set, so one more pull finds the adapter
  disconnected and drained, declares success and emits \<open>finished\<close> again; from then on
  \<open>fileName()\<close> returns the destination path of the failed download.
\<close>

theorem pull_after_failure_declares_success:
  assumes "metaReady d" and "downloader d = Some a" and "tmpFile d = Some f"
    and "\<not> isConnected a" and "bytesAvailable a \<le> n"
    and "\<And>bs. tmpFile_write env bs = int (length bs)"
  shows "\<not> success (on_failed env d) \<and> fileName (on_failed env d) = []
     \<and> effects (on_failed env d) = effects d @ [Emit_finished]
     \<and> success (snd (readData env n (on_failed env d)))
     \<and> fileName (snd (readData env n (on_failed env d))) = dstFileName d
     \<and> effects (snd (readData env n (on_failed env d))) =
         effects d @ [Emit_finished, Emit_finished]"
proof -
  let ?d1 = "on_failed env d"
  have d1: "?d1 = emit Emit_finished (d\<lparr>success := False, d_lastError := lastError a\<rparr>)"
    using assms(1,2) by (simp add: on_failed_def Let_def)
  have t: "tmpFile ?d1 = Some f" and w: "downloader ?d1 = Some a"
    using assms(2,3) by (simp_all add: d1 emit_def)
  have r: "readData env n ?d1 =
     (int (bytesAvailable a),
      emit Emit_finished
        (?d1\<lparr>downloader := Some (snd (read a n)),
           tmpFile := Some (f\<lparr>f_data := f_data f @ fst (read a n)\<rparr>), success := True\<rparr>))"
    by (rule readData_last_pull [OF t w assms(4) assms(5) assms(6)])
  show ?thesis
    by (simp add: r fileName_def) (simp add: d1 emit_def)
qed

theorem pull_after_failure_declares_success_witness:
  "NAM_onFinished env0 False (NAM_onReadyRead ''xyz'' (NAM_onMetaDataChanged env0 200 [] d_trying)) =
     on_failed env0 d_dropped
   \<and> \<not> success (on_failed env0 d_dropped)
   \<and> fileName (on_failed env0 d_dropped) = []
   \<and> effects (on_failed env0 d_dropped) =
       [HttpGet ''http://a/f'' None, Emit_metaDataChanged, Emit_readyRead, Emit_finished]
   \<and> fst (readData env0 10 (on_failed env0 d_dropped)) = 3
   \<and> success (snd (readData env0 10 (on_failed env0 d_dropped)))
   \<and> fileName (snd (readData env0 10 (on_failed env0 d_dropped))) = ''/docs/b.txt''
   \<and> effects (snd (readData env0 10 (on_failed env0 d_dropped))) =
       [HttpGet ''http://a/f'' None, Emit_metaDataChanged, Emit_readyRead, Emit_finished,
        Emit_finished]"
proof -
  have e: "NAM_onFinished env0 False
             (NAM_onReadyRead ''xyz'' (NAM_onMetaDataChanged env0 200 [] d_trying)) =
           on_failed env0 d_dropped"
    by (simp add: NAM_onFinished_def d_dropped_reachable)
  have m: "metaReady d_dropped" and a: "downloader d_dropped = Some nam_done"
    and t: "tmpFile d_dropped = Some \<lparr>f_name = ''/docs/dl-b.txt'', f_data = []\<rparr>"
    and n: "dstFileName d_dropped = ''/docs/b.txt''"
    and f: "effects d_dropped = [HttpGet ''http://a/f'' None, Emit_metaDataChanged, Emit_readyRead]"
    by (simp_all add: d_dropped_def)
  have c: "\<not> isConnected nam_done"
    by (simp add: isConnected_def nam_done_def nam0_def new_Downloader_def)
  have b: "bytesAvailable nam_done \<le> 10"
    by (simp add: bytesAvailable_def nam_done_def nam0_def new_Downloader_def)
  have w: "\<And>bs. tmpFile_write env0 bs = int (length bs)"
    by (simp add: env0_def)
  have k: "fst (readData env0 10 (on_failed env0 d_dropped)) = 3"
    by code_simp
  show ?thesis
    using pull_after_failure_declares_success [OF m a t c b w] n f e k by simp
qed

section \<open>Properties of \<open>open()\<close>\<close>

lemma sortSourcesByPriority_Nil: "sortSourcesByPriority p [] = []"
  by (simp add: sortSourcesByPriority_def)

lemma open_empty_sources_not_ReadOnly:
  "uris d = [] \<Longrightarrow> ReadOnly \<notin> mode \<Longrightarrow> open env mode d = Some (False, d\<lparr>success := False\<rparr>)"
  by (simp add: open_def)

text \<open>
  C4 (fails on the code): with an empty source list \<open>open()\<close> returns false only when
  the mode lacks \<open>ReadOnly\<close>. Opened for reading, it picks a destination name, opens
  the device, returns true and reports the failure through \<open>finished\<close>; no adapter is
  created.
\<close>

theorem open_empty_sources_returns_true:
  assumes "uris d = []" and "ReadOnly \<in> mode" and "\<not> isOpen d"
    and "downloader d = None" and "chooseDstName env d = Some fn"
  shows "open env mode d =
           Some (True, emit Emit_finished
              (d\<lparr>dstFileName := absoluteFilePath (documentsDir env) fn, openMode := mode,
                 success := False,
                 d_lastError := (if d_lastError d = [] then ''Download sources are not given''
                                 else d_lastError d)\<rparr>))"
  using assms by (simp add: open_def startNextDownloader_def Let_def)

lemma chooseDstName_free:
  assumes "fn = (let fn0 = cleanFileName env (QFileInfo_fileName (file_name d))
                 in if fn0 = [] then toHex (case sums d of [] \<Rightarrow> [] | h # _ \<Rightarrow> h) else fn0)"
    and "\<not> docDir_exists env fn"
  shows "chooseDstName env d = Some fn"
  using assms by (simp add: chooseDstName_def Let_def dstNameLoop.simps)

theorem open_empty_sources_returns_true_witness:
  "uris d_new_empty = [] \<and> \<not> isOpen d_new_empty
   \<and> (\<exists>d'. open env0 {ReadOnly} d_new_empty = Some (True, d')
          \<and> effects d' = [Emit_finished] \<and> downloader d' = None
          \<and> d_lastError d' = ''Download sources are not given'')"
proof -
  have u: "uris d_new_empty = []" and o: "\<not> isOpen d_new_empty"
    and n: "downloader d_new_empty = None" and e: "d_lastError d_new_empty = []"
    and f: "effects d_new_empty = []"
    by (simp_all add: d_new_empty_def new_FileShareDownloader_def sortSourcesByPriority_Nil isOpen_def)
  have c: "chooseDstName env0 d_new_empty = Some ''b.txt''"
    by (rule chooseDstName_free)
       (simp_all add: d_new_empty_def new_FileShareDownloader_def env0_def
          QFileInfo_fileName_def afterLast_def)
  have r: "ReadOnly \<in> {ReadOnly}" by simp
  show ?thesis
    using open_empty_sources_returns_true [OF u r o n c] u o n e f
    by (simp add: emit_def)
qed

lemma dstNameLoop_stuck:
  assumes "ex (numberedName b sfx i)"
  shows "dstNameLoop ex b sfx i (numberedName b sfx i) = None"
proof (rule ccontr)
  assume "dstNameLoop ex b sfx i (numberedName b sfx i) \<noteq> None"
  then obtain y where y: "dstNameLoop ex b sfx i (numberedName b sfx i) = Some y" by auto
  have "\<not> (ex (numberedName b sfx i) \<and> numberedName b sfx i = numberedName b sfx i)"
  proof (rule dstNameLoop.raw_induct
          [where P = "\<lambda>ex' b' s' i' fn' y'. \<not> (ex' fn' \<and> fn' = numberedName b' s' i')", OF _ y])
    fix f ex' b' s' i' fn' y'
    assume IH: "\<And>ex b s i fn y. f ex b s i fn = Some y \<Longrightarrow> \<not> (ex fn \<and> fn = numberedName b s i)"
      and step: "(if ex' fn' then f ex' b' s' i' (numberedName b' s' i') else Some fn') = Some y'"
    show "\<not> (ex' fn' \<and> fn' = numberedName b' s' i')"
    proof
      assume A: "ex' fn' \<and> fn' = numberedName b' s' i'"
      then have e: "ex' fn'" and q: "fn' = numberedName b' s' i'" by blast+
      from step e have "f ex' b' s' i' (numberedName b' s' i') = Some y'" by simp
      from IH [OF this] e q show False by blast
    qed
  qed
  with assms show False by simp
qed

lemma dstNameLoop_diverges:
  assumes "ex fn" and "ex (numberedName b sfx i)"
  shows "dstNameLoop ex b sfx i fn = None"
proof -
  have "dstNameLoop ex b sfx i fn = dstNameLoop ex b sfx i (numberedName b sfx i)"
    using assms(1) by (subst dstNameLoop.simps) simp
  then show ?thesis using dstNameLoop_stuck [of ex b sfx i] assms(2) by simp
qed

lemma dstNameLoop_numbered:
  assumes "ex fn" and "\<not> ex (numberedName b sfx i)"
  shows "dstNameLoop ex b sfx i fn = Some (numberedName b sfx i)"
  using assms by (subst dstNameLoop.simps) (simp add: dstNameLoop.simps)

text \<open>When the loop does return, the name it returns is free.\<close>

lemma dstNameLoop_result_free:
  assumes "dstNameLoop ex b sfx i fn = Some y"
  shows "\<not> ex y"
proof (rule dstNameLoop.raw_induct [where P = "\<lambda>ex' b' s' i' fn' y'. \<not> ex' y'", OF _ assms])
  fix f ex' b' s' i' fn' y'
  assume IH: "\<And>ex b s i fn y. f ex b s i fn = Some y \<Longrightarrow> \<not> ex y"
    and step: "(if ex' fn' then f ex' b' s' i' (numberedName b' s' i') else Some fn') = Some y'"
  show "\<not> ex' y'"
  proof (cases "ex' fn'")
    case True
    with step have "f ex' b' s' i' (numberedName b' s' i') = Some y'" by simp
    then show ?thesis by (rule IH)
  next
    case False
    with step show ?thesis by simp
  qed
qed

text \<open>
  C5 (fails on the code): \<open>index\<close> is never incremented, so the loop tries one numbered
  name only. When the desired name and that numbered name both exist in the documents
  directory, the loop never ends and \<open>open()\<close> does not return.
\<close>

theorem open_does_not_return:
  assumes "fn = (let fn0 = cleanFileName env (QFileInfo_fileName (file_name d))
                 in if fn0 = [] then toHex (case sums d of [] \<Rightarrow> [] | h # _ \<Rightarrow> h) else fn0)"
    and "docDir_exists env fn"
    and "docDir_exists env (numberedName (completeBaseName fn) (suffix fn) 1)"
    and "uris d \<noteq> []" and "\<not> isOpen d"
  shows "chooseDstName env d = None \<and> open env mode d = None"
proof -
  have "chooseDstName env d = dstNameLoop (docDir_exists env) (completeBaseName fn) (suffix fn) 1 fn"
    using assms(1) by (simp add: chooseDstName_def Let_def)
  then have c: "chooseDstName env d = None"
    using dstNameLoop_diverges [OF assms(2) assms(3)] by simp
  then show ?thesis using assms(4,5) by (simp add: open_def)
qed

theorem open_does_not_return_witness:
  "uris d_new_a = [''http://a/f''] \<and> \<not> isOpen d_new_a
   \<and> docDir_exists env0 ''a.txt'' \<and> docDir_exists env0 ''a-1.txt''
   \<and> open env0 {ReadOnly} d_new_a = None"
proof -
  have u: "uris d_new_a = [''http://a/f'']"
    by (simp add: d_new_a_def new_FileShareDownloader_def sortSourcesByPriority_def
          sourceType_def startsWith_def Let_def)
  have o: "\<not> isOpen d_new_a"
    by (simp add: d_new_a_def new_FileShareDownloader_def isOpen_def)
  have f: "''a.txt'' = (let fn0 = cleanFileName env0 (QFileInfo_fileName (file_name d_new_a))
                 in if fn0 = [] then toHex (case sums d_new_a of [] \<Rightarrow> [] | h # _ \<Rightarrow> h) else fn0)"
    by (simp add: d_new_a_def new_FileShareDownloader_def env0_def QFileInfo_fileName_def afterLast_def)
  have e1: "docDir_exists env0 ''a.txt''" by (simp add: env0_def)
  have k: "numberedName (completeBaseName ''a.txt'') (suffix ''a.txt'') 1 = ''a-1.txt''"
    by code_simp
  have e2: "docDir_exists env0 (numberedName (completeBaseName ''a.txt'') (suffix ''a.txt'') 1)"
    by (simp add: k env0_def)
  have n: "uris d_new_a \<noteq> []" using u by simp
  show ?thesis
    using open_does_not_return [OF f e1 e2 n o, of "{ReadOnly}"] u o e1 k
    by (simp add: env0_def)
qed


section \<open>Properties of the bulk-transfer adapter\<close>

lemma split_acc_notin:
  "sep \<notin> set a \<Longrightarrow> split_acc sep cur (a @ rest) = split_acc sep (rev a @ cur) rest"
  by (induction a arbitrary: cur) auto

lemma split_ba_none: "sep \<notin> set a \<Longrightarrow> split_ba a sep = [a]"
  using split_acc_notin [of sep a "[]" "[]"] by (simp add: split_ba_def)

lemma split_ba_one:
  "sep \<notin> set a \<Longrightarrow> sep \<notin> set b \<Longrightarrow> split_ba (a @ sep # b) sep = [a, b]"
  using split_acc_notin [of sep a "[]" "sep # b"] split_ba_none [of sep b]
  by (simp add: split_ba_def)

lemma split_ba_hd: "sep \<notin> set a \<Longrightarrow> hd (split_ba (a @ sep # b) sep) = a"
  using split_acc_notin [of sep a "[]" "sep # b"] by (simp add: split_ba_def)

lemma s64_id: "- (2 ^ 63) \<le> x \<Longrightarrow> x < 2 ^ 63 \<Longrightarrow> s64 x = x"
  by (simp add: s64_def)

lemma parse_failed: "\<not> fst (parseHttpRangeResponse env v) \<Longrightarrow> parseHttpRangeResponse env v = (False, 0, 0)"
  by (auto simp: parseHttpRangeResponse_def Let_def split: if_splits prod.splits)

lemma parse_wellformed:
  assumes sp: "CHR '' '' \<notin> set s \<union> set e \<union> set t"
    and da: "CHR ''-'' \<notin> set s \<union> set e \<union> set t"
    and sl: "CHR ''/'' \<notin> set e"
    and ps: "toLongLong env s = (True, st)"
    and pe: "toLongLong env e = (True, en)"
    and le: "st \<le> en" and ub: "en - st + 1 < 2 ^ 63"
  shows "parseHttpRangeResponse env (''bytes '' @ s @ ''-'' @ e @ ''/'' @ t) = (True, st, en - st + 1)"
proof -
  have a0: "split_ba (''bytes'' @ CHR '' '' # (s @ ''-'' @ e @ ''/'' @ t)) CHR '' '' = [''bytes'', s @ ''-'' @ e @ ''/'' @ t]"
    using sp by (intro split_ba_one) auto
  have a1: "split_ba (s @ CHR ''-'' # (e @ ''/'' @ t)) CHR ''-'' = [s, e @ ''/'' @ t]"
    using da by (intro split_ba_one) auto
  have a2: "hd (split_ba (e @ CHR ''/'' # t) CHR ''/'') = e"
    using sl by (rule split_ba_hd)
  have z: "s64 (en - st + 1) = en - st + 1"
    using le ub by (intro s64_id) auto
  show ?thesis
    using a0 a1 a2 z ps pe le
    by (simp add: parseHttpRangeResponse_def Let_def)
qed


lemma NAM_206_parsed:
  assumes "downloader d = Some a" and "parseHttpRangeResponse env ba = (True, st, sz)"
  shows "NAM_onMetaDataChanged env 206 ba d =
           on_metaDataChanged env (d\<lparr>downloader := Some (a\<lparr>rangeStart := st, rangeSize := sz\<rparr>)\<rparr>)"
  using assms by (simp add: NAM_onMetaDataChanged_def)

lemma NAM_206_malformed:
  assumes "downloader d = Some a" and "ba \<noteq> []" and "\<not> fst (parseHttpRangeResponse env ba)"
  shows "NAM_onMetaDataChanged env 206 ba d =
           d\<lparr>downloader := Some (a\<lparr>rangeStart := 0, rangeSize := 0,
                                   lastError := ''Invalid HTTP response range''\<rparr>),
             effects := effects d @ [ReplyDelete, SingleShot_failed]\<rparr>"
  using assms parse_failed [OF assms(3)]
  by (simp add: NAM_onMetaDataChanged_def with_downloader_def namFailed_def downloadError_def
        emits_def)

lemma parse_empty: "parseHttpRangeResponse env [] = (False, 0, 0)"
  by (simp add: parseHttpRangeResponse_def split_ba_def)

lemma NAM_206_absent:
  assumes "downloader d = Some a"
  shows "NAM_onMetaDataChanged env 206 [] d =
           on_metaDataChanged env (d\<lparr>downloader := Some (a\<lparr>rangeStart := 0, rangeSize := 0\<rparr>)\<rparr>)"
  using assms by (simp add: NAM_onMetaDataChanged_def parse_empty)

lemma NAM_200_203:
  assumes "downloader d = Some a" and "status = 200 \<or> status = 203"
  shows "NAM_onMetaDataChanged env status ba d = on_metaDataChanged env d"
  using assms by (auto simp add: NAM_onMetaDataChanged_def)

lemma NAM_other_status:
  assumes "downloader d = Some a" and "status \<noteq> 206" and "status \<noteq> 200" and "status \<noteq> 203"
  shows "NAM_onMetaDataChanged env status ba d =
           d\<lparr>downloader := Some (a\<lparr>rangeStart := 0, rangeSize := 0,
                                   lastError := ''Unexpected HTTP status: '' @ QString_number status\<rparr>),
             effects := effects d @ [ReplyDelete, SingleShot_failed]\<rparr>"
  using assms
  by (simp add: NAM_onMetaDataChanged_def with_downloader_def namFailed_def downloadError_def
        emits_def)

lemma split_acc_unfold:
  "split_acc sep cur v =
     (rev cur @ takeWhile (\<lambda>x. x \<noteq> sep) v) #
     (case dropWhile (\<lambda>x. x \<noteq> sep) v of [] \<Rightarrow> [] | x # rest \<Rightarrow> split_acc sep [] rest)"
  by (induction v arbitrary: cur) auto

lemma split_ba_unfold:
  "split_ba v sep =
     takeWhile (\<lambda>x. x \<noteq> sep) v #
     (case dropWhile (\<lambda>x. x \<noteq> sep) v of [] \<Rightarrow> [] | x # rest \<Rightarrow> split_ba rest sep)"
  unfolding split_ba_def using split_acc_unfold [of sep "[]" v] by simp

lemma split_ba_nonempty: "split_ba v sep \<noteq> []"
  by (subst split_ba_unfold) simp

lemma hd_split_ba: "hd (split_ba r sep) = takeWhile (\<lambda>x. x \<noteq> sep) r"
  by (subst split_ba_unfold) simp

lemma split_ba_len1:
  assumes "length (split_ba v sep) = 1"
  shows "sep \<notin> set v"
proof -
  have "dropWhile (\<lambda>x. x \<noteq> sep) v = []"
    using assms split_ba_nonempty
    by (subst (asm) split_ba_unfold) (simp split: list.splits)
  then show ?thesis by auto
qed

lemma split_ba_len2:
  assumes "length (split_ba v sep) = 2"
  shows "\<exists>a b. v = a @ sep # b \<and> sep \<notin> set a \<and> sep \<notin> set b \<and> split_ba v sep = [a, b]"
proof -
  let ?a = "takeWhile (\<lambda>x. x \<noteq> sep) v"
  obtain x rest where d: "dropWhile (\<lambda>x. x \<noteq> sep) v = x # rest"
    and l: "length (split_ba rest sep) = 1"
    using assms by (subst (asm) split_ba_unfold) (auto split: list.splits)
  have x: "x = sep" using hd_dropWhile [of "\<lambda>x. x \<noteq> sep" v] d by simp
  have v: "v = ?a @ sep # rest"
    using takeWhile_dropWhile_id [of "\<lambda>x. x \<noteq> sep" v] d x by simp
  have a: "sep \<notin> set ?a" using set_takeWhileD [of sep "\<lambda>x. x \<noteq> sep" v] by auto
  have b: "sep \<notin> set rest" by (rule split_ba_len1 [OF l])
  have "split_ba (?a @ sep # rest) sep = [?a, rest]" by (rule split_ba_one [OF a b])
  then show ?thesis using v a b by metis
qed


lemma takeWhile_sep: "c \<notin> set e \<Longrightarrow> takeWhile (\<lambda>x. x \<noteq> c) (e @ c # t) = e"
  by (induction e) auto

lemma parse_shape:
  assumes sp: "CHR '' '' \<notin> set s \<union> set r" and da: "CHR ''-'' \<notin> set s \<union> set r"
    and ps: "toLongLong env s = (True, st)"
    and pe: "toLongLong env (takeWhile (\<lambda>x. x \<noteq> CHR ''/'') r) = (True, en)"
  shows "parseHttpRangeResponse env (''bytes '' @ s @ ''-'' @ r) =
           (if s64 (en - st + 1) < 0 then (False, 0, 0) else (True, st, s64 (en - st + 1)))"
proof -
  have a0: "split_ba (''bytes'' @ CHR '' '' # (s @ ''-'' @ r)) CHR '' '' = [''bytes'', s @ ''-'' @ r]"
    using sp by (intro split_ba_one) auto
  have a1: "split_ba (s @ CHR ''-'' # r) CHR ''-'' = [s, r]"
    using da by (intro split_ba_one) auto
  show ?thesis
    using a0 a1 ps pe by (simp add: parseHttpRangeResponse_def Let_def hd_split_ba)
qed

lemma parse_success_shape:
  assumes "fst (parseHttpRangeResponse env v)"
  shows "\<exists>s r. v = ''bytes '' @ s @ ''-'' @ r
           \<and> CHR '' '' \<notin> set s \<union> set r \<and> CHR ''-'' \<notin> set s \<union> set r
           \<and> fst (toLongLong env s)
           \<and> fst (toLongLong env (takeWhile (\<lambda>x. x \<noteq> CHR ''/'') r))"
proof -
  let ?arr = "split_ba v CHR '' ''"
  have l: "length ?arr = 2" and b: "?arr ! 0 = ''bytes''"
    and l1: "length (split_ba (?arr ! 1) CHR ''-'') = 2"
    using assms by (auto simp: parseHttpRangeResponse_def Let_def split: if_splits)
  obtain a w where v: "v = a @ CHR '' '' # w" and w: "CHR '' '' \<notin> set w" and arr: "?arr = [a, w]"
    using split_ba_len2 [OF l] by blast
  have a: "a = ''bytes''" and w1: "?arr ! 1 = w" using b arr by simp_all
  obtain s r where wr: "w = s @ CHR ''-'' # r" and s: "CHR ''-'' \<notin> set s" and r: "CHR ''-'' \<notin> set r"
    and arr1: "split_ba w CHR ''-'' = [s, r]"
    using split_ba_len2 [of w "CHR ''-''"] l1 w1 by auto
  have ok: "fst (toLongLong env s) \<and> fst (toLongLong env (takeWhile (\<lambda>x. x \<noteq> CHR ''/'') r))"
    using assms l b l1 w1 arr1
    by (auto simp: parseHttpRangeResponse_def Let_def hd_split_ba split: if_splits prod.splits)
  show ?thesis
    using v a wr w s r ok by auto
qed

text \<open>
  C6 (as amended): on the reply's metadata the bulk-transfer adapter acts by status.
  On 206, a header \<open>bytes start-end/total\<close> whose two numbers parse gives the range
  \<open>(start, end - start + 1)\<close>, reported through \<open>metaDataChanged\<close>, when that size is not
  negative (and below \<open>2 ^ 63\<close>); when the size is negative the adapter fails with
  \<open>Invalid HTTP response range\<close>, as it does on every non-empty header that is not
  \<open>bytes\<close>, one space, a number that parses, one dash and a number that parses (read up
  to the first slash), with no other space or dash. An empty or absent header is accepted
  with the range \<open>(0, 0)\<close>. On 200 and 203 no header is parsed and \<open>metaDataChanged\<close> is
  reported with the adapter as it is. Any other status makes the adapter fail with the
  status code in the error text.
\<close>

theorem NAM_onMetaDataChanged_by_status:
  assumes "downloader d = Some a"
  shows "(CHR '' '' \<notin> set s \<union> set e \<union> set t \<and> CHR ''-'' \<notin> set s \<union> set e \<union> set t
           \<and> CHR ''/'' \<notin> set e \<and> toLongLong env s = (True, st) \<and> toLongLong env e = (True, en)
           \<and> 0 \<le> en - st + 1 \<and> en - st + 1 < 2 ^ 63 \<longrightarrow>
          NAM_onMetaDataChanged env 206 (''bytes '' @ s @ ''-'' @ e @ ''/'' @ t) d =
            on_metaDataChanged env
              (d\<lparr>downloader := Some (a\<lparr>rangeStart := st, rangeSize := en - st + 1\<rparr>)\<rparr>))
     \<and> (CHR '' '' \<notin> set s \<union> set e \<union> set t \<and> CHR ''-'' \<notin> set s \<union> set e \<union> set t
           \<and> CHR ''/'' \<notin> set e \<and> toLongLong env s = (True, st) \<and> toLongLong env e = (True, en)
           \<and> en - st + 1 < 0 \<and> - (2 ^ 63) \<le> en - st + 1 \<longrightarrow>
          NAM_onMetaDataChanged env 206 (''bytes '' @ s @ ''-'' @ e @ ''/'' @ t) d =
            d\<lparr>downloader := Some (a\<lparr>rangeStart := 0, rangeSize := 0,
                                    lastError := ''Invalid HTTP response range''\<rparr>),
              effects := effects d @ [ReplyDelete, SingleShot_failed]\<rparr>)
     \<and> (ba \<noteq> [] \<and>
          \<not> (\<exists>s' r'. ba = ''bytes '' @ s' @ ''-'' @ r'
                \<and> CHR '' '' \<notin> set s' \<union> set r' \<and> CHR ''-'' \<notin> set s' \<union> set r'
                \<and> fst (toLongLong env s')
                \<and> fst (toLongLong env (takeWhile (\<lambda>x. x \<noteq> CHR ''/'') r'))) \<longrightarrow>
          NAM_onMetaDataChanged env 206 ba d =
            d\<lparr>downloader := Some (a\<lparr>rangeStart := 0, rangeSize := 0,
                                    lastError := ''Invalid HTTP response range''\<rparr>),
              effects := effects d @ [ReplyDelete, SingleShot_failed]\<rparr>)
     \<and> NAM_onMetaDataChanged env 206 [] d =
          on_metaDataChanged env (d\<lparr>downloader := Some (a\<lparr>rangeStart := 0, rangeSize := 0\<rparr>)\<rparr>)
     \<and> (status = 200 \<or> status = 203 \<longrightarrow>
          NAM_onMetaDataChanged env status ba d = on_metaDataChanged env d)
     \<and> (status \<noteq> 206 \<and> status \<noteq> 200 \<and> status \<noteq> 203 \<longrightarrow>
          NAM_onMetaDataChanged env status ba d =
            d\<lparr>downloader := Some (a\<lparr>rangeStart := 0, rangeSize := 0,
                  lastError := ''Unexpected HTTP status: '' @ QString_number status\<rparr>),
              effects := effects d @ [ReplyDelete, SingleShot_failed]\<rparr>)"
proof (intro conjI impI)
  assume h: "CHR '' '' \<notin> set s \<union> set e \<union> set t \<and> CHR ''-'' \<notin> set s \<union> set e \<union> set t
           \<and> CHR ''/'' \<notin> set e \<and> toLongLong env s = (True, st) \<and> toLongLong env e = (True, en)
           \<and> 0 \<le> en - st + 1 \<and> en - st + 1 < 2 ^ 63"
  then have tw: "takeWhile (\<lambda>x. x \<noteq> CHR ''/'') (e @ ''/'' @ t) = e"
    using takeWhile_sep [of "CHR ''/''" e t] by simp
  have z: "s64 (en - st + 1) = en - st + 1" using h by (intro s64_id) auto
  have "parseHttpRangeResponse env (''bytes '' @ s @ ''-'' @ (e @ ''/'' @ t)) =
           (if s64 (en - st + 1) < 0 then (False, 0, 0) else (True, st, s64 (en - st + 1)))"
    using h tw by (intro parse_shape) auto
  then have "parseHttpRangeResponse env (''bytes '' @ s @ ''-'' @ e @ ''/'' @ t) = (True, st, en - st + 1)"
    using h z by simp
  then show "NAM_onMetaDataChanged env 206 (''bytes '' @ s @ ''-'' @ e @ ''/'' @ t) d =
            on_metaDataChanged env
              (d\<lparr>downloader := Some (a\<lparr>rangeStart := st, rangeSize := en - st + 1\<rparr>)\<rparr>)"
    by (rule NAM_206_parsed [OF assms])
next
  assume h: "CHR '' '' \<notin> set s \<union> set e \<union> set t \<and> CHR ''-'' \<notin> set s \<union> set e \<union> set t
           \<and> CHR ''/'' \<notin> set e \<and> toLongLong env s = (True, st) \<and> toLongLong env e = (True, en)
           \<and> en - st + 1 < 0 \<and> - (2 ^ 63) \<le> en - st + 1"
  then have tw: "takeWhile (\<lambda>x. x \<noteq> CHR ''/'') (e @ ''/'' @ t) = e"
    using takeWhile_sep [of "CHR ''/''" e t] by simp
  have z: "s64 (en - st + 1) = en - st + 1" using h by (intro s64_id) auto
  have "parseHttpRangeResponse env (''bytes '' @ s @ ''-'' @ (e @ ''/'' @ t)) =
           (if s64 (en - st + 1) < 0 then (False, 0, 0) else (True, st, s64 (en - st + 1)))"
    using h tw by (intro parse_shape) auto
  then have "\<not> fst (parseHttpRangeResponse env (''bytes '' @ s @ ''-'' @ e @ ''/'' @ t))"
    using h z by simp
  then show "NAM_onMetaDataChanged env 206 (''bytes '' @ s @ ''-'' @ e @ ''/'' @ t) d =
            d\<lparr>downloader := Some (a\<lparr>rangeStart := 0, rangeSize := 0,
                                    lastError := ''Invalid HTTP response range''\<rparr>),
              effects := effects d @ [ReplyDelete, SingleShot_failed]\<rparr>"
    by (intro NAM_206_malformed [OF assms]) simp_all
next
  assume h: "ba \<noteq> [] \<and>
          \<not> (\<exists>s' r'. ba = ''bytes '' @ s' @ ''-'' @ r'
                \<and> CHR '' '' \<notin> set s' \<union> set r' \<and> CHR ''-'' \<notin> set s' \<union> set r'
                \<and> fst (toLongLong env s')
                \<and> fst (toLongLong env (takeWhile (\<lambda>x. x \<noteq> CHR ''/'') r')))"
  then have "\<not> fst (parseHttpRangeResponse env ba)"
    using parse_success_shape [of env ba] by blast
  with h show "NAM_onMetaDataChanged env 206 ba d =
            d\<lparr>downloader := Some (a\<lparr>rangeStart := 0, rangeSize := 0,
                                    lastError := ''Invalid HTTP response range''\<rparr>),
              effects := effects d @ [ReplyDelete, SingleShot_failed]\<rparr>"
    using NAM_206_malformed [OF assms] by blast
next
  show "NAM_onMetaDataChanged env 206 [] d =
          on_metaDataChanged env (d\<lparr>downloader := Some (a\<lparr>rangeStart := 0, rangeSize := 0\<rparr>)\<rparr>)"
    by (rule NAM_206_absent [OF assms])
next
  assume "status = 200 \<or> status = 203"
  then show "NAM_onMetaDataChanged env status ba d = on_metaDataChanged env d"
    by (rule NAM_200_203 [OF assms])
next
  assume "status \<noteq> 206 \<and> status \<noteq> 200 \<and> status \<noteq> 203"
  then show "NAM_onMetaDataChanged env status ba d =
            d\<lparr>downloader := Some (a\<lparr>rangeStart := 0, rangeSize := 0,
                  lastError := ''Unexpected HTTP status: '' @ QString_number status\<rparr>),
              effects := effects d @ [ReplyDelete, SingleShot_failed]\<rparr>"
    using NAM_other_status [OF assms] by blast
qed

theorem NAM_onMetaDataChanged_by_status_witness:
  "d_rangeStart (NAM_onMetaDataChanged env0 206 ''bytes 0-999/1000'' d_trying) = 0
   \<and> d_rangeSize (NAM_onMetaDataChanged env0 206 ''bytes 0-999/1000'' d_trying) = 1000
   \<and> effects (NAM_onMetaDataChanged env0 206 ''bytes 0-999/1000'' d_trying) =
       [HttpGet ''http://a/f'' None, Emit_metaDataChanged]
   \<and> effects (NAM_onMetaDataChanged env0 206 ''bytes 10-5/100'' d_trying) =
       [HttpGet ''http://a/f'' None, ReplyDelete, SingleShot_failed]
   \<and> map_option lastError (downloader (NAM_onMetaDataChanged env0 206 ''bytes 10-5/100'' d_trying)) =
       Some ''Invalid HTTP response range''
   \<and> effects (NAM_onMetaDataChanged env0 206 ''bites 0-999'' d_trying) =
       [HttpGet ''http://a/f'' None, ReplyDelete, SingleShot_failed]
   \<and> effects (NAM_onMetaDataChanged env0 203 [] d_trying) =
       [HttpGet ''http://a/f'' None, Emit_metaDataChanged]
   \<and> effects (NAM_onMetaDataChanged env0 404 [] d_trying) =
       [HttpGet ''http://a/f'' None, ReplyDelete, SingleShot_failed]
   \<and> map_option lastError (downloader (NAM_onMetaDataChanged env0 404 [] d_trying)) =
       Some ''Unexpected HTTP status: 404''"
proof -
  have a: "downloader d_trying = Some nam0" by (simp add: d_trying_def)
  have p0: "toLongLong env0 ''0'' = (True, 0)" and p999: "toLongLong env0 ''999'' = (True, 999)"
    and p10: "toLongLong env0 ''10'' = (True, 10)" and p5: "toLongLong env0 ''5'' = (True, 5)"
    by code_simp+
  have h1: "CHR '' '' \<notin> set ''0'' \<union> set ''999'' \<union> set ''1000''
      \<and> CHR ''-'' \<notin> set ''0'' \<union> set ''999'' \<union> set ''1000''
      \<and> CHR ''/'' \<notin> set ''999'' \<and> toLongLong env0 ''0'' = (True, 0)
      \<and> toLongLong env0 ''999'' = (True, 999) \<and> (0::int) \<le> 999 - 0 + 1
      \<and> (999::int) - 0 + 1 < 2 ^ 63"
    using p0 p999 by simp
  have h2: "CHR '' '' \<notin> set ''10'' \<union> set ''5'' \<union> set ''100''
      \<and> CHR ''-'' \<notin> set ''10'' \<union> set ''5'' \<union> set ''100''
      \<and> CHR ''/'' \<notin> set ''5'' \<and> toLongLong env0 ''10'' = (True, 10)
      \<and> toLongLong env0 ''5'' = (True, 5) \<and> (5::int) - 10 + 1 < 0
      \<and> - (2 ^ 63) \<le> (5::int) - 10 + 1"
    using p10 p5 by simp
  have h3: "''bites 0-999'' \<noteq> [] \<and>
          \<not> (\<exists>s' r'. ''bites 0-999'' = ''bytes '' @ s' @ ''-'' @ r'
                \<and> CHR '' '' \<notin> set s' \<union> set r' \<and> CHR ''-'' \<notin> set s' \<union> set r'
                \<and> fst (toLongLong env0 s')
                \<and> fst (toLongLong env0 (takeWhile (\<lambda>x. x \<noteq> CHR ''/'') r')))"
    by simp
  have n: "QString_number 404 = ''404''" by code_simp
  have m: "\<And>a'. effects (on_metaDataChanged env0 (d_trying\<lparr>downloader := Some a'\<rparr>)) =
       [HttpGet ''http://a/f'' None, Emit_metaDataChanged]
     \<and> d_rangeStart (on_metaDataChanged env0 (d_trying\<lparr>downloader := Some a'\<rparr>)) = rangeStart a'
     \<and> d_rangeSize (on_metaDataChanged env0 (d_trying\<lparr>downloader := Some a'\<rparr>)) = rangeSize a'"
    by (simp add: on_metaDataChanged_def d_trying_def env0_def Let_def emit_def range_of_def)
  have m0: "effects (on_metaDataChanged env0 d_trying) = [HttpGet ''http://a/f'' None, Emit_metaDataChanged]"
    by (simp add: on_metaDataChanged_def d_trying_def env0_def Let_def emit_def)
  have e0: "effects d_trying = [HttpGet ''http://a/f'' None]" by (simp add: d_trying_def)
  note T1 = NAM_onMetaDataChanged_by_status
              [OF a, of "''0''" "''999''" "''1000''" env0 0 999 "''bites 0-999''" 203]
  note T2 = NAM_onMetaDataChanged_by_status
              [OF a, of "''10''" "''5''" "''100''" env0 10 5 "[]" 404]
  from T1 h1 h3
  have r1: "NAM_onMetaDataChanged env0 206 ''bytes 0-999/1000'' d_trying =
      on_metaDataChanged env0 (d_trying\<lparr>downloader := Some (nam0\<lparr>rangeStart := 0, rangeSize := 999 - 0 + 1\<rparr>)\<rparr>)"
    and r3: "NAM_onMetaDataChanged env0 206 ''bites 0-999'' d_trying =
            d_trying\<lparr>downloader := Some (nam0\<lparr>rangeStart := 0, rangeSize := 0,
                                    lastError := ''Invalid HTTP response range''\<rparr>),
              effects := effects d_trying @ [ReplyDelete, SingleShot_failed]\<rparr>"
    by simp_all
  from T2 h2
  have r2: "NAM_onMetaDataChanged env0 206 ''bytes 10-5/100'' d_trying =
            d_trying\<lparr>downloader := Some (nam0\<lparr>rangeStart := 0, rangeSize := 0,
                                    lastError := ''Invalid HTTP response range''\<rparr>),
              effects := effects d_trying @ [ReplyDelete, SingleShot_failed]\<rparr>"
    and r5: "NAM_onMetaDataChanged env0 404 [] d_trying =
            d_trying\<lparr>downloader := Some (nam0\<lparr>rangeStart := 0, rangeSize := 0,
                  lastError := ''Unexpected HTTP status: '' @ QString_number 404\<rparr>),
              effects := effects d_trying @ [ReplyDelete, SingleShot_failed]\<rparr>"
    by simp_all
  from T1 have r4: "NAM_onMetaDataChanged env0 203 ''bites 0-999'' d_trying = on_metaDataChanged env0 d_trying"
    by simp
  have r4': "NAM_onMetaDataChanged env0 203 [] d_trying = on_metaDataChanged env0 d_trying"
    using NAM_onMetaDataChanged_by_status [OF a, of "''0''" "''999''" "''1000''" env0 0 999 "[]" 203]
    by simp
  show ?thesis
    by (simp add: r1 r2 r3 r4' r5 m m0 e0 n)
qed

text \<open>
  C6 as stated fails twice: a 206 whose \<open>Content-Range\<close> is empty does not parse and is
  accepted all the same, and a 200 answering a request for the range \<open>(100, 50)\<close> leaves
  the adapter ranged, so that the orchestrator reports \<open>(100, 50)\<close> for a full payload.
\<close>

theorem NAM_status_counterexample:
  "\<not> fst (parseHttpRangeResponse env0 [])
   \<and> effects (NAM_onMetaDataChanged env0 206 [] d_trying) =
       [HttpGet ''http://a/f'' None, Emit_metaDataChanged]
   \<and> d_rangeStart (NAM_onMetaDataChanged env0 200 [] d_ranged) = 100
   \<and> d_rangeSize (NAM_onMetaDataChanged env0 200 [] d_ranged) = 50
   \<and> map_option isRanged (downloader (NAM_onMetaDataChanged env0 200 [] d_ranged)) = Some True
   \<and> effects (NAM_onMetaDataChanged env0 200 [] d_ranged) =
       [HttpGet ''http://a/f'' (Some ''bytes=100-149''), Emit_metaDataChanged]"
  by code_simp

section \<open>Properties of the inline-blob adapter\<close>

lemma on_metaDataChanged_opened:
  assumes "downloader d = Some a"
    and "tmpFile_open env (QFileInfo_path (dstFileName d) @ ''/'' @ ''dl-'' @ QFileInfo_fileName (dstFileName d)) = None"
  shows "downloader (on_metaDataChanged env d) = Some a"
    and "d_rangeStart (on_metaDataChanged env d) = rangeStart a"
    and "d_rangeSize (on_metaDataChanged env d) = rangeSize a"
    and "effects (on_metaDataChanged env d) = effects d @ [Emit_metaDataChanged]"
  using assms by (simp_all add: on_metaDataChanged_def Let_def emit_def range_of_def)

lemma on_metaDataChanged_downloader:
  assumes "downloader d = Some a"
  shows "\<exists>a'. downloader (on_metaDataChanged env d) = Some a'
            \<and> range_of a' = range_of a \<and> cls a' = cls a \<and> receivedData a' = receivedData a"
  using assms
  by (cases "cls a")
     (auto simp add: on_metaDataChanged_def Let_def emit_def emits_def abort_def range_of_def
        split: option.splits prod.splits)

lemma BOB_onLoaded_eq:
  assumes "downloader d = Some a" and "\<not> destroyed a"
  shows "BOB_onLoaded env True dat d =
      on_disconnected (set_connected False (on_metaDataChanged env
        (d\<lparr>downloader := Some (a\<lparr>connected := True, receivedData := dat,
                                    rangeStart := 0, rangeSize := 0\<rparr>)\<rparr>)))"
proof -
  have "\<not> isRanged (a\<lparr>connected := True, receivedData := dat\<rparr>) \<Longrightarrow>
        a\<lparr>connected := True, receivedData := dat\<rparr> =
        a\<lparr>connected := True, receivedData := dat, rangeStart := 0, rangeSize := 0\<rparr>"
    by (simp add: isRanged_def)
  then show ?thesis
    using assms by (auto simp add: BOB_onLoaded_def Let_def)
qed


lemma on_disconnected_effects:
  "downloader d = Some a \<Longrightarrow>
   effects (on_disconnected d) =
     effects d @ Emit_disconnected # (if bytesAvailable a = 0 then [Emit_finished] else [])"
  by (simp add: on_disconnected_def Let_def emit_def)

lemma on_disconnected_fields [simp]:
  "downloader (on_disconnected d) = downloader d"
  "d_rangeStart (on_disconnected d) = d_rangeStart d"
  "d_rangeSize (on_disconnected d) = d_rangeSize d"
  by (simp_all add: on_disconnected_def Let_def emit_def split: option.splits)

lemma set_connected_fields [simp]:
  "d_rangeStart (set_connected b d) = d_rangeStart d"
  "d_rangeSize (set_connected b d) = d_rangeSize d"
  "effects (set_connected b d) = effects d"
  "downloader (set_connected b d) = map_option (\<lambda>a. a\<lparr>connected := b\<rparr>) (downloader d)"
  by (simp_all add: set_connected_def split: option.splits)

text \<open>
  C7: when the inline blob arrives with success at an adapter that was not aborted, the
  adapter takes the whole object, resets its range to \<open>(0, 0)\<close> whatever was requested,
  emits \<open>metaDataChanged\<close> and then \<open>disconnected\<close>, with nothing in between. When the
  staging file opens, the orchestrator's range is \<open>(0, 0)\<close> and its signals are
  \<open>metaDataChanged\<close>, \<open>disconnected\<close> (and \<open>finished\<close> at once for an empty object).
\<close>

theorem BOB_onLoaded_discards_range:
  assumes "downloader d = Some a" and "cls a = BOBFileShareDownloader" and "\<not> destroyed a"
  shows "BOB_onLoaded env True dat d =
      on_disconnected (set_connected False (on_metaDataChanged env
        (d\<lparr>downloader := Some (a\<lparr>connected := True, receivedData := dat,
                                    rangeStart := 0, rangeSize := 0\<rparr>)\<rparr>)))
    \<and> (\<exists>a'. downloader (BOB_onLoaded env True dat d) = Some a'
            \<and> range_of a' = (0, 0) \<and> \<not> isRanged a' \<and> \<not> connected a')
    \<and> (tmpFile_open env (QFileInfo_path (dstFileName d) @ ''/'' @ ''dl-'' @
                            QFileInfo_fileName (dstFileName d)) = None \<longrightarrow>
         d_rangeStart (BOB_onLoaded env True dat d) = 0
         \<and> d_rangeSize (BOB_onLoaded env True dat d) = 0
         \<and> effects (BOB_onLoaded env True dat d) =
             effects d @ Emit_metaDataChanged # Emit_disconnected #
               (if dat = [] then [Emit_finished] else []))"
proof -
  let ?a = "a\<lparr>connected := True, receivedData := dat, rangeStart := 0, rangeSize := 0\<rparr>"
  let ?d = "d\<lparr>downloader := Some ?a\<rparr>"
  let ?m = "on_metaDataChanged env ?d"
  have eq: "BOB_onLoaded env True dat d = on_disconnected (set_connected False ?m)"
    by (rule BOB_onLoaded_eq [OF assms(1) assms(3)])
  have da: "downloader ?d = Some ?a" by simp
  obtain a' where a': "downloader ?m = Some a'" "range_of a' = range_of ?a" "cls a' = cls ?a"
      "receivedData a' = receivedData ?a"
    using on_metaDataChanged_downloader [OF da, of env] by blast
  have p2: "\<exists>a''. downloader (BOB_onLoaded env True dat d) = Some a''
            \<and> range_of a'' = (0, 0) \<and> \<not> isRanged a'' \<and> \<not> connected a''"
    using a' by (simp add: eq range_of_def isRanged_def)
  have p3: "d_rangeStart (BOB_onLoaded env True dat d) = 0
         \<and> d_rangeSize (BOB_onLoaded env True dat d) = 0
         \<and> effects (BOB_onLoaded env True dat d) =
             effects d @ Emit_metaDataChanged # Emit_disconnected #
               (if dat = [] then [Emit_finished] else [])"
    if o: "tmpFile_open env (QFileInfo_path (dstFileName d) @ ''/'' @ ''dl-'' @
                            QFileInfo_fileName (dstFileName d)) = None"
  proof -
    have o': "tmpFile_open env (QFileInfo_path (dstFileName ?d) @ ''/'' @ ''dl-'' @
                            QFileInfo_fileName (dstFileName ?d)) = None"
      using o by simp
    note M = on_metaDataChanged_opened [OF da o']
    have sc: "downloader (set_connected False ?m) = Some (?a\<lparr>connected := False\<rparr>)"
      by (simp add: M(1))
    have b: "bytesAvailable (?a\<lparr>connected := False\<rparr>) = length dat"
      using assms(2) by (simp add: bytesAvailable_def)
    show ?thesis
      using on_disconnected_effects [OF sc] M b by (simp add: eq)
  qed
  show ?thesis using eq p2 p3 by blast
qed

theorem BOB_onLoaded_discards_range_witness:
  "downloader d_loading = Some bob_ranged \<and> range_of bob_ranged = (5, 10)
   \<and> d_rangeStart (BOB_onLoaded env0 True ''xyz'' d_loading) = 0
   \<and> d_rangeSize (BOB_onLoaded env0 True ''xyz'' d_loading) = 0
   \<and> effects (BOB_onLoaded env0 True ''xyz'' d_loading) =
       [LoadBob jid_off ''abc'', Emit_metaDataChanged, Emit_disconnected]"
proof -
  have a: "downloader d_loading = Some bob_ranged" by (simp add: d_loading_def)
  have c: "cls bob_ranged = BOBFileShareDownloader" and n: "\<not> destroyed bob_ranged"
    and r: "range_of bob_ranged = (5, 10)"
    by (simp_all add: bob_ranged_def setRange_def new_Downloader_def range_of_def)
  have o: "tmpFile_open env0 (QFileInfo_path (dstFileName d_loading) @ ''/'' @ ''dl-'' @
                            QFileInfo_fileName (dstFileName d_loading)) = None"
    by (simp add: env0_def)
  have e: "effects d_loading = [LoadBob jid_off ''abc'']" by (simp add: d_loading_def)
  from BOB_onLoaded_discards_range [OF a c n, of env0 "''xyz''"] o
  have "d_rangeStart (BOB_onLoaded env0 True ''xyz'' d_loading) = 0
         \<and> d_rangeSize (BOB_onLoaded env0 True ''xyz'' d_loading) = 0
         \<and> effects (BOB_onLoaded env0 True ''xyz'' d_loading) =
             effects d_loading @ Emit_metaDataChanged # Emit_disconnected #
               (if ''xyz'' = [] then [Emit_finished] else [])"
    by blast
  then show ?thesis using a r e by simp
qed


lemma selectOnlineJid_result:
  "selectOnlineJid env js = Jid_null
   \<or> (selectOnlineJid env js \<in> set js \<and> selectOnlineJid env js \<noteq> client_jid env
       \<and> relevantHasResource (findRelevant env (selectOnlineJid env js))
            (resource (selectOnlineJid env js)))"
  by (induction js) auto

lemma BOB_start_offline:
  "\<not> isValid (selectOnlineJid env (jids a)) \<Longrightarrow>
   BOB_start env a =
     (a\<lparr>lastError := CHR 0x22 # ''Bits Of Binary'' @ CHR 0x22 # '' data source is offline''\<rparr>,
      [SingleShot_failed])"
  by (simp add: BOB_start_def downloadError_def)



section \<open>Properties of \<open>publish\<close>\<close>

text \<open>
  C9: on an item whose bulk-upload-done and peer-transfer-done flags are both set,
  \<open>publish\<close> changes nothing and has no effect: no upload, no cache write, no signal.
\<close>

theorem publish_twice_is_noop:
  assumes "HttpFinished \<in> i_flags it" and "JingleFinished \<in> i_flags it"
  shows "publish_body ie it = (it, [])
     \<and> (i_fileType it \<noteq> RemoteFile \<longrightarrow> publish ie it = Inr (it, []))
     \<and> (i_fileType it = RemoteFile \<longrightarrow> publish ie it = Inl AssertionFailed)"
  using assms by (simp add: publish_def publish_body_def)

lemma it1_first_publish:
  "publish ie0 it0 =
     Inr (it1, [MoveToCache [''h''] ''/tmp/psishare-1.png'' [(''type'', V_String ''image/png'')] TEMP_TTL,
                Emit_publishFinished])"
  by (simp add: publish_def publish_body_def checkFinished_def ie0_def it0_def it1_def Let_def
        vm_insert_def insert_commute)

theorem publish_twice_is_noop_witness:
  "HttpFinished \<in> i_flags it1 \<and> JingleFinished \<in> i_flags it1
   \<and> publish ie0 it0 =
     Inr (it1, [MoveToCache [''h''] ''/tmp/psishare-1.png'' [(''type'', V_String ''image/png'')] TEMP_TTL,
                Emit_publishFinished])
   \<and> publish ie0 it1 = Inr (it1, [])"
proof -
  have f: "HttpFinished \<in> i_flags it1" and j: "JingleFinished \<in> i_flags it1"
    and t: "i_fileType it1 \<noteq> RemoteFile"
    by (simp_all add: it1_def)
  show ?thesis
    using publish_twice_is_noop [OF f j, of ie0] f j t it1_first_publish by simp
qed

end
